theory Spec2Isabelle
  imports Complex_Main "HOL-Library.Word"
begin

section \<open>Values shared by the packages\<close>

text \<open>
  A Go \<open>error\<close> built with \<open>fmt.Errorf\<close> is its message; \<open>nil\<close> is \<open>None\<close> of
  \<open>error option\<close>. A pointer that may be nil is an \<open>option\<close> as well.
\<close>

datatype error = Errorf string

fun Error :: "error \<Rightarrow> string" where
  "Error (Errorf msg) = msg"

text \<open>
  Calls to the logger package are recorded in the order they are made, as level
  and message (the structured fields are left out).
\<close>

datatype log_level = DEBUG | INFO | WARN | ERROR

type_synonym log_entry = "log_level \<times> string"

section \<open>Events (package connection)\<close>

text \<open>
  Modelled from the spec: the connection package, with \<open>FSEvent\<close> and its method
  \<open>GetHeader\<close>, is not among the sources. The spec describes an event as a mapping of
  header name to string value (case-sensitive, last write wins); the calculator
  compares the result of \<open>GetHeader\<close> with the empty string, so an absent header reads
  as the empty string.
\<close>

record FSEvent =
  Headers :: "string \<rightharpoonup> string"

text \<open>
  Modelled from the spec: \<open>GetHeader\<close> of the connection package; the value stored
  under the name, the empty string when there is none.
\<close>

definition GetHeader :: "FSEvent \<Rightarrow> string \<Rightarrow> string" where
  "GetHeader event name = (case Headers event name of None \<Rightarrow> [] | Some v \<Rightarrow> v)"

section \<open>Channel state and its store (package store)\<close>

text \<open>
  Modelled from the spec: the store package is not among the sources. The fields of
  \<open>ChannelState\<close> are the ones \<open>validateStateStore\<close> of main.go fills in (timestamps as
  instants of a discrete clock).
\<close>

record ChannelState =
  ChannelID :: string
  CorrelationID :: string
  DomainName :: string
  InstanceName :: string
  CreatedAt :: nat
  UpdatedAt :: nat

text \<open>
  The calculator holds the store behind the interface \<open>store.StateStore\<close> and calls
  \<open>Get\<close> and \<open>Delete\<close> on it. The interface is a parameter of the model: a store is
  given by its two operations over a state type \<open>'s\<close> of its own; each returns the
  state it leaves behind. \<open>Get\<close> gives either a state or an error (the calculator
  reads the state whenever the error is nil).
\<close>

record 's StateStore =
  Get :: "'s \<Rightarrow> string \<Rightarrow> (error + ChannelState) \<times> 's"
  Delete :: "'s \<Rightarrow> string \<Rightarrow> error option \<times> 's"

text \<open>
  Modelled from the spec: the implementations of the store are not among the sources.
  The spec's contract (section 4.4) is \<open>Get(key)\<close> giving a state, not-found or an
  error, \<open>Set(key, state, ttl)\<close> overwriting any prior value and resetting its expiry,
  an idempotent \<open>Delete(key)\<close>, a \<open>Get\<close> on an expired entry behaving as not-found,
  and a backend failure (StoreBackendError, section 7) failing the operation.
  An entry is a state with the instant it expires at; \<open>clock\<close> is the current
  instant; \<open>outages\<close> says, for each coming operation in turn, whether the backend
  fails it (an in-process store has none).
\<close>

record store_state =
  entries :: "string \<rightharpoonup> (ChannelState \<times> nat)"
  clock :: nat
  outages :: "bool list"

text \<open>
  Modelled from the spec: the error of \<open>Get\<close> for a key that is absent or expired
  (the message is the one docs/LOGGING.md shows).
\<close>

definition ErrNotFound :: error where
  "ErrNotFound = Errorf ''channel state not found''"

text \<open>Modelled from the spec: the error of an operation the backend fails.\<close>

definition ErrBackend :: error where
  "ErrBackend = Errorf ''state store backend failure''"

text \<open>
  Modelled from the spec: whether the backend fails the operation that comes next.
\<close>

definition backend_fails :: "store_state \<Rightarrow> bool" where
  "backend_fails s = (case outages s of [] \<Rightarrow> False | b # _ \<Rightarrow> b)"

text \<open>
  Modelled from the spec: the state once an operation has been answered, the next
  operation's outcome coming first.
\<close>

definition operation_done :: "store_state \<Rightarrow> store_state" where
  "operation_done s = s\<lparr>outages := (case outages s of [] \<Rightarrow> [] | _ # bs \<Rightarrow> bs)\<rparr>"

text \<open>
  Modelled from the spec: \<open>Get\<close> of the store package. An expired entry reads as
  not-found and is dropped on the read.
\<close>

definition store_Get :: "store_state \<Rightarrow> string \<Rightarrow> (error + ChannelState) \<times> store_state" where
  "store_Get s key =
     (if backend_fails s then (Inl ErrBackend, operation_done s)
      else case entries s key of
             None \<Rightarrow> (Inl ErrNotFound, operation_done s)
           | Some (state, expiry) \<Rightarrow>
               if expiry \<le> clock s then
                 (Inl ErrNotFound, operation_done (s\<lparr>entries := (entries s)(key := None)\<rparr>))
               else (Inr state, operation_done s))"

text \<open>
  Modelled from the spec: \<open>Set\<close> of the store package, overwriting any prior value
  and restarting its time to live.
\<close>

definition store_Set ::
  "store_state \<Rightarrow> string \<Rightarrow> ChannelState \<Rightarrow> nat \<Rightarrow> error option \<times> store_state" where
  "store_Set s key state ttl =
     (if backend_fails s then (Some ErrBackend, operation_done s)
      else (None, operation_done (s\<lparr>entries := (entries s)(key \<mapsto> (state, clock s + ttl))\<rparr>)))"

text \<open>
  Modelled from the spec: \<open>Delete\<close> of the store package; deleting an absent key is
  not an error.
\<close>

definition store_Delete :: "store_state \<Rightarrow> string \<Rightarrow> error option \<times> store_state" where
  "store_Delete s key =
     (if backend_fails s then (Some ErrBackend, operation_done s)
      else (None, operation_done (s\<lparr>entries := (entries s)(key := None)\<rparr>)))"

text \<open>Modelled from the spec: the store above behind the interface of the calculator.\<close>

definition spec_store :: "store_state StateStore" where
  "spec_store = \<lparr> Get = store_Get, Delete = store_Delete \<rparr>"

text \<open>
  Modelled from the spec: an entry is live when it is present and has not reached
  its expiry.
\<close>

definition live :: "store_state \<Rightarrow> string \<Rightarrow> ChannelState \<Rightarrow> bool" where
  "live s key state =
     (case entries s key of None \<Rightarrow> False
      | Some (state', expiry) \<Rightarrow> state' = state \<and> clock s < expiry)"

section \<open>Number parsing (Go standard library, package strconv)\<close>

text \<open>
  The parsers of strconv are not code of the repository; they are a parameter of
  the model. Each returns \<open>None\<close> where Go returns a non-nil error. \<open>float64\<close> values
  are represented by the real numbers they stand for, \<open>int64\<close> and \<open>uint64\<close> by
  64-bit words, Go's \<open>int\<close> by the integer it holds.
\<close>

record strconv =
  ParseFloat :: "string \<Rightarrow> nat \<Rightarrow> real option"
  ParseInt :: "string \<Rightarrow> nat \<Rightarrow> nat \<Rightarrow> 64 word option"
  ParseUint :: "string \<Rightarrow> nat \<Rightarrow> nat \<Rightarrow> 64 word option"
  Atoi :: "string \<Rightarrow> int option"

text \<open>
  A reference instance on decimal literals, following the documentation of strconv:
  \<open>ParseUint\<close> takes one or more digits, \<open>ParseInt\<close> and \<open>Atoi\<close> an optional sign and
  one or more digits, each rejecting a value outside the bit size; \<open>ParseFloat\<close> takes
  an optional sign and digits with an optional point, at least one digit in all.
  Only base 10 is covered, and for \<open>ParseFloat\<close> neither exponents, hexadecimal
  literals, infinities nor NaN; Go's \<open>int\<close> is taken as 64 bits wide.
\<close>

definition digit_of :: "char \<Rightarrow> nat option" where
  "digit_of c =
     (let n = (of_char c :: nat) in if 48 \<le> n \<and> n \<le> 57 then Some (n - 48) else None)"

fun decimal_digits :: "nat \<Rightarrow> string \<Rightarrow> nat option" where
  "decimal_digits acc [] = Some acc"
| "decimal_digits acc (c # cs) =
     (case digit_of c of None \<Rightarrow> None | Some d \<Rightarrow> decimal_digits (10 * acc + d) cs)"

definition parse_unsigned :: "string \<Rightarrow> nat option" where
  "parse_unsigned str = (if str = [] then None else decimal_digits 0 str)"

definition parse_signed :: "string \<Rightarrow> int option" where
  "parse_signed str =
     (case str of
        [] \<Rightarrow> None
      | c # cs \<Rightarrow>
          if c = CHR ''-'' then map_option (\<lambda>n. - int n) (parse_unsigned cs)
          else if c = CHR ''+'' then map_option int (parse_unsigned cs)
          else map_option int (parse_unsigned str))"

definition go_ParseUint :: "string \<Rightarrow> nat \<Rightarrow> nat \<Rightarrow> 64 word option" where
  "go_ParseUint str base bitSize =
     (if base \<noteq> 10 then None
      else case parse_unsigned str of
             None \<Rightarrow> None
           | Some n \<Rightarrow> if n < 2 ^ (if bitSize = 0 then 64 else bitSize) then Some (of_nat n)
                       else None)"

definition go_ParseInt :: "string \<Rightarrow> nat \<Rightarrow> nat \<Rightarrow> 64 word option" where
  "go_ParseInt str base bitSize =
     (if base \<noteq> 10 then None
      else case parse_signed str of
             None \<Rightarrow> None
           | Some i \<Rightarrow>
               let half = 2 ^ ((if bitSize = 0 then 64 else bitSize) - 1)
               in if - half \<le> i \<and> i < half then Some (of_int i) else None)"

definition go_Atoi :: "string \<Rightarrow> int option" where
  "go_Atoi str =
     (case parse_signed str of
        None \<Rightarrow> None
      | Some i \<Rightarrow> if - (2 ^ 63) \<le> i \<and> i < 2 ^ 63 then Some i else None)"

definition go_ParseFloat :: "string \<Rightarrow> nat \<Rightarrow> real option" where
  "go_ParseFloat str bitSize =
     (let (negative, body) =
            (case str of
               [] \<Rightarrow> (False, [])
             | c # cs \<Rightarrow> if c = CHR ''-'' then (True, cs)
                         else if c = CHR ''+'' then (False, cs) else (False, str));
          whole = takeWhile (\<lambda>c. c \<noteq> CHR ''.'') body;
          fraction = (case dropWhile (\<lambda>c. c \<noteq> CHR ''.'') body of [] \<Rightarrow> [] | _ # cs \<Rightarrow> cs)
      in if whole = [] \<and> fraction = [] then None
         else case (decimal_digits 0 whole, decimal_digits 0 fraction) of
                (Some i, Some f) \<Rightarrow>
                  Some ((if negative then - 1 else 1) * (real i + real f / 10 ^ length fraction))
              | _ \<Rightarrow> None)"

definition go_strconv :: strconv where
  "go_strconv = \<lparr> ParseFloat = go_ParseFloat, ParseInt = go_ParseInt,
                   ParseUint = go_ParseUint, Atoi = go_Atoi \<rparr>"

section \<open>The QoS calculator (pkg/calculator/qos.go)\<close>

record QoSMetrics =
  Timestamp :: nat
  InstanceName :: string
  ChannelID :: string
  CorrelationID :: string
  DomainName :: string
  MOSScore :: real
  AvgJitter :: real
  MinJitter :: real
  MaxJitter :: real
  Delta :: real
  TotalPackets :: "64 word"
  PacketLoss :: "64 word"
  TotalBytes :: "64 word"
  CodecName :: string
  CodecPT :: int
  PTime :: int
  ClockRate :: int
  SrcIP :: string
  SrcPort :: "16 word"
  DstIP :: string
  DstPort :: "16 word"
  ReportTimestamp :: "64 word"

text \<open>
  The composite literal of \<open>CalculateMetrics\<close>: three fields set, every other field
  at the zero value of its type.
\<close>

definition new_QoSMetrics :: "nat \<Rightarrow> string \<Rightarrow> string \<Rightarrow> QoSMetrics" where
  "new_QoSMetrics now instanceName channelID =
     \<lparr> Timestamp = now, InstanceName = instanceName, ChannelID = channelID,
       CorrelationID = [], DomainName = [],
       MOSScore = 0, AvgJitter = 0, MinJitter = 0, MaxJitter = 0, Delta = 0,
       TotalPackets = 0, PacketLoss = 0, TotalBytes = 0,
       CodecName = [], CodecPT = 0, PTime = 0, ClockRate = 0,
       SrcIP = [], SrcPort = 0, DstIP = [], DstPort = 0,
       ReportTimestamp = 0 \<rparr>"

definition extractQualityMetrics ::
  "strconv \<Rightarrow> FSEvent \<Rightarrow> QoSMetrics \<Rightarrow> error option \<times> QoSMetrics" where
  "extractQualityMetrics sc event metrics0 =
     (let mosStr = GetHeader event ''variable_rtp_audio_in_mos'';
          metrics1 = (if mosStr \<noteq> [] then
                        (case ParseFloat sc mosStr 64 of
                           Some mos \<Rightarrow> metrics0\<lparr>MOSScore := mos\<rparr>
                         | None \<Rightarrow> metrics0)
                      else metrics0);
          minJitterStr = GetHeader event ''variable_rtp_audio_in_jitter_min_variance'';
          metrics2 = (if minJitterStr \<noteq> [] then
                        (case ParseFloat sc minJitterStr 64 of
                           Some minJitter \<Rightarrow> metrics1\<lparr>MinJitter := minJitter\<rparr>
                         | None \<Rightarrow> metrics1)
                      else metrics1);
          maxJitterStr = GetHeader event ''variable_rtp_audio_in_jitter_max_variance'';
          metrics3 = (if maxJitterStr \<noteq> [] then
                        (case ParseFloat sc maxJitterStr 64 of
                           Some maxJitter \<Rightarrow> metrics2\<lparr>MaxJitter := maxJitter\<rparr>
                         | None \<Rightarrow> metrics2)
                      else metrics2);
          metrics4 = (if MinJitter metrics3 > 0 \<or> MaxJitter metrics3 > 0 then
                        metrics3\<lparr>AvgJitter := (MinJitter metrics3 + MaxJitter metrics3) / 2\<rparr>
                      else metrics3);
          deltaStr = GetHeader event ''variable_rtp_audio_in_mean_interval'';
          metrics5 = (if deltaStr \<noteq> [] then
                        (case ParseFloat sc deltaStr 64 of
                           Some delta \<Rightarrow> metrics4\<lparr>Delta := delta\<rparr>
                         | None \<Rightarrow> metrics4)
                      else metrics4)
      in (None, metrics5))"

text \<open>
  A local \<open>int64\<close> that is assigned only when its header is present and parses; it
  starts at zero.
\<close>

definition parsed_int64 :: "strconv \<Rightarrow> FSEvent \<Rightarrow> string \<Rightarrow> 64 word" where
  "parsed_int64 sc event name =
     (let str = GetHeader event name
      in if str \<noteq> [] then
           (case ParseInt sc str 10 64 of Some v \<Rightarrow> v | None \<Rightarrow> 0)
         else 0)"

definition extractTrafficMetrics ::
  "strconv \<Rightarrow> FSEvent \<Rightarrow> QoSMetrics \<Rightarrow> error option \<times> QoSMetrics" where
  "extractTrafficMetrics sc event metrics0 =
     (let inboundPackets = parsed_int64 sc event ''variable_rtp_audio_in_packet_count'';
          outboundPackets = parsed_int64 sc event ''variable_rtp_audio_out_packet_count'';
          metrics1 = metrics0\<lparr>TotalPackets := inboundPackets + outboundPackets\<rparr>;
          inboundBytes = parsed_int64 sc event ''variable_rtp_audio_in_media_bytes'';
          outboundBytes = parsed_int64 sc event ''variable_rtp_audio_out_media_bytes'';
          metrics2 = metrics1\<lparr>TotalBytes := inboundBytes + outboundBytes\<rparr>;
          inboundSkip = parsed_int64 sc event ''variable_rtp_audio_in_skip_packet_count'';
          outboundSkip = parsed_int64 sc event ''variable_rtp_audio_out_skip_packet_count'';
          metrics3 = metrics2\<lparr>PacketLoss := inboundSkip + outboundSkip\<rparr>
      in (None, metrics3))"

definition extractCodecInfo ::
  "strconv \<Rightarrow> FSEvent \<Rightarrow> QoSMetrics \<Rightarrow> error option \<times> QoSMetrics" where
  "extractCodecInfo sc event metrics0 =
     (let codecName = GetHeader event ''variable_rtp_use_codec_name'';
          metrics1 = (if codecName \<noteq> [] then metrics0\<lparr>CodecName := codecName\<rparr>
                      else metrics0);
          codecPTStr = GetHeader event ''variable_rtp_use_codec_pt'';
          metrics2 = (if codecPTStr \<noteq> [] then
                        (case Atoi sc codecPTStr of
                           Some pt \<Rightarrow> metrics1\<lparr>CodecPT := pt\<rparr>
                         | None \<Rightarrow> metrics1)
                      else metrics1);
          ptimeStr = GetHeader event ''variable_rtp_use_codec_ptime'';
          metrics3 = (if ptimeStr \<noteq> [] then
                        (case Atoi sc ptimeStr of
                           Some ptime \<Rightarrow> metrics2\<lparr>PTime := ptime\<rparr>
                         | None \<Rightarrow> metrics2)
                      else metrics2);
          clockRateStr = GetHeader event ''variable_rtp_use_codec_rate'';
          metrics4 = (if clockRateStr \<noteq> [] then
                        (case Atoi sc clockRateStr of
                           Some rate \<Rightarrow> metrics3\<lparr>ClockRate := rate\<rparr>
                         | None \<Rightarrow> metrics3)
                      else metrics3);
          localIP = GetHeader event ''variable_local_media_ip'';
          metrics5 = (if localIP \<noteq> [] then metrics4\<lparr>SrcIP := localIP\<rparr>
                      else metrics4);
          localPortStr = GetHeader event ''variable_local_media_port'';
          metrics6 = (if localPortStr \<noteq> [] then
                        (case ParseUint sc localPortStr 10 16 of
                           Some port \<Rightarrow> metrics5\<lparr>SrcPort := ucast port\<rparr>
                         | None \<Rightarrow> metrics5)
                      else metrics5);
          remoteIP = GetHeader event ''variable_remote_media_ip'';
          metrics7 = (if remoteIP \<noteq> [] then metrics6\<lparr>DstIP := remoteIP\<rparr>
                      else metrics6);
          remotePortStr = GetHeader event ''variable_remote_media_port'';
          metrics8 = (if remotePortStr \<noteq> [] then
                        (case ParseUint sc remotePortStr 10 16 of
                           Some port \<Rightarrow> metrics7\<lparr>DstPort := ucast port\<rparr>
                         | None \<Rightarrow> metrics7)
                      else metrics7);
          timestampStr = GetHeader event ''Event-Date-Timestamp'';
          metrics9 = (if timestampStr \<noteq> [] then
                        (case ParseInt sc timestampStr 10 64 of
                           Some timestamp \<Rightarrow> metrics8\<lparr>ReportTimestamp := timestamp\<rparr>
                         | None \<Rightarrow> metrics8)
                      else metrics8)
      in (None, metrics9))"

text \<open>
  \<open>extractStateAndDomain\<close> returns its error, the metrics, the state the store is
  left in and the log calls it made. The context argument is not modelled.
\<close>

definition extractStateAndDomain ::
  "'s StateStore \<Rightarrow> 's \<Rightarrow> FSEvent \<Rightarrow> QoSMetrics
     \<Rightarrow> error option \<times> QoSMetrics \<times> 's \<times> log_entry list" where
  "extractStateAndDomain store s event metrics0 =
     (let channelID = QoSMetrics.ChannelID metrics0
      in case Get store s channelID of
           (Inr state, s1) \<Rightarrow>
             (let metrics1 = metrics0\<lparr>QoSMetrics.CorrelationID := ChannelState.CorrelationID state\<rparr>;
                  metrics2 = metrics1\<lparr>QoSMetrics.DomainName := ChannelState.DomainName state\<rparr>
              in case Delete store s1 channelID of
                   (Some delErr, s2) \<Rightarrow>
                     (None, metrics2, s2,
                      [(WARN, ''Failed to delete channel state after QoS calculation'')])
                 | (None, s2) \<Rightarrow> (None, metrics2, s2, []))
         | (Inl err, s1) \<Rightarrow>
             (let metrics1 =
                    (if GetHeader event ''Other-Leg-Unique-ID'' \<noteq> [] then
                       metrics0\<lparr>QoSMetrics.CorrelationID := GetHeader event ''Other-Leg-Unique-ID''\<rparr>
                     else if GetHeader event ''Unique-ID'' \<noteq> [] then
                       metrics0\<lparr>QoSMetrics.CorrelationID := GetHeader event ''Unique-ID''\<rparr>
                     else if GetHeader event ''variable_sip_call_id'' \<noteq> [] then
                       metrics0\<lparr>QoSMetrics.CorrelationID := GetHeader event ''variable_sip_call_id''\<rparr>
                     else if GetHeader event ''variable_global_call_id'' \<noteq> [] then
                       metrics0\<lparr>QoSMetrics.CorrelationID := GetHeader event ''variable_global_call_id''\<rparr>
                     else metrics0);
                  metrics2 =
                    (if GetHeader event ''variable_domain_name'' \<noteq> [] then
                       metrics1\<lparr>QoSMetrics.DomainName := GetHeader event ''variable_domain_name''\<rparr>
                     else if GetHeader event ''variable_sip_from_host'' \<noteq> [] then
                       metrics1\<lparr>QoSMetrics.DomainName := GetHeader event ''variable_sip_from_host''\<rparr>
                     else if GetHeader event ''variable_sip_to_host'' \<noteq> [] then
                       metrics1\<lparr>QoSMetrics.DomainName := GetHeader event ''variable_sip_to_host''\<rparr>
                     else metrics1)
              in (None, metrics2, s1, [])))"

text \<open>
  \<open>CalculateMetrics\<close> returns the pair of Go, a metrics pointer that may be nil and
  an error that may be nil, with the state the store is left in and the log calls
  made. \<open>now\<close> is the reading of \<open>time.Now()\<close>.
\<close>

definition CalculateMetrics ::
  "strconv \<Rightarrow> 's StateStore \<Rightarrow> nat \<Rightarrow> 's \<Rightarrow> FSEvent \<Rightarrow> string
     \<Rightarrow> QoSMetrics option \<times> error option \<times> 's \<times> log_entry list" where
  "CalculateMetrics sc store now s event instanceName =
     (if GetHeader event ''variable_rtp_use_codec_rate'' = [] then
        (None,
         Some (Errorf ''variable_rtp_use_codec_rate not present, skipping QoS calculation''),
         s, [])
      else
        let channelID = GetHeader event ''Unique-ID''
        in if channelID = [] then
             (None, Some (Errorf ''CHANNEL_DESTROY event missing Unique-ID''), s, [])
           else
             (case extractQualityMetrics sc event (new_QoSMetrics now instanceName channelID) of
                (Some err, _) \<Rightarrow>
                  (None, Some (Errorf (''failed to extract quality metrics: '' @ Error err)), s,
                   [(ERROR, ''Failed to extract quality metrics'')])
              | (None, metrics1) \<Rightarrow>
             (case extractTrafficMetrics sc event metrics1 of
                (Some err, _) \<Rightarrow>
                  (None, Some (Errorf (''failed to extract traffic metrics: '' @ Error err)), s,
                   [(ERROR, ''Failed to extract traffic metrics'')])
              | (None, metrics2) \<Rightarrow>
             (case extractCodecInfo sc event metrics2 of
                (Some err, _) \<Rightarrow>
                  (None, Some (Errorf (''failed to extract codec info: '' @ Error err)), s,
                   [(ERROR, ''Failed to extract codec info'')])
              | (None, metrics3) \<Rightarrow>
             (case extractStateAndDomain store s event metrics3 of
                (Some err, _, s', lg) \<Rightarrow>
                  (None, Some (Errorf (''failed to extract state and domain: '' @ Error err)), s',
                   lg @ [(ERROR, ''Failed to extract state and domain'')])
              | (None, metrics4, s', lg) \<Rightarrow>
                  (Some metrics4, None, s',
                   lg @ [(DEBUG, ''QoS metrics calculated successfully'')]))))))"

text \<open>
  The metrics as they stand when \<open>CalculateMetrics\<close> reaches the state lookup: the
  fresh record after the three extraction helpers.
\<close>

definition extracted :: "strconv \<Rightarrow> nat \<Rightarrow> FSEvent \<Rightarrow> string \<Rightarrow> QoSMetrics" where
  "extracted sc now event instanceName =
     snd (extractCodecInfo sc event
       (snd (extractTrafficMetrics sc event
         (snd (extractQualityMetrics sc event
           (new_QoSMetrics now instanceName (GetHeader event ''Unique-ID'')))))))"

text \<open>
  The spec's wording of a priority order: the first value of a list that is not
  empty, and the empty string when there is none.
\<close>

fun first_non_empty :: "string list \<Rightarrow> string" where
  "first_non_empty [] = []"
| "first_non_empty (v # vs) = (if v \<noteq> [] then v else first_non_empty vs)"

section \<open>Internal metrics (pkg/metrics/internal_metrics.go)\<close>

text \<open>
  The registry holds its counters behind pointers (\<open>*int64\<close>), and the package
  holds the registry behind a pointer (\<open>*InternalMetrics\<close>), so the model has an
  explicit memory: \<open>counters\<close> maps the address of every allocated \<open>int64\<close> to its
  value, \<open>registries\<close> the address of every allocated \<open>InternalMetrics\<close> to its
  fields. Allocation takes the next unused address. A pointer that may be nil is an
  \<open>addr option\<close>. The mutex and the atomicity of the additions are not modelled:
  calls run one after the other.
\<close>

type_synonym addr = nat

text \<open>
  A Go map is nil (the zero value, as in \<open>InternalMetrics{}\<close>) or made. Reading a
  nil map finds no key; assigning to an entry of a nil map panics.
\<close>

datatype 'v go_map = Nil_map | Made "string \<rightharpoonup> 'v"

text \<open>The read \<open>v, ok := m[k]\<close>: \<open>None\<close> when \<open>ok\<close> is false.\<close>

fun lookup :: "'v go_map \<Rightarrow> string \<Rightarrow> 'v option" where
  "lookup Nil_map k = None"
| "lookup (Made t) k = t k"

text \<open>The assignment \<open>m[k] = v\<close>: \<open>None\<close> when it panics.\<close>

fun assign :: "'v go_map \<Rightarrow> string \<Rightarrow> 'v \<Rightarrow> 'v go_map option" where
  "assign Nil_map k v = None"
| "assign (Made t) k v = Some (Made (t(k \<mapsto> v)))"

text \<open>
  The reads \<open>m[k]\<close> of a map of pointers and \<open>m[k1][k2]\<close> of a map of such maps: the
  zero value (a nil pointer, a nil map) where a key is missing.
\<close>

definition index1 :: "addr option go_map \<Rightarrow> string \<Rightarrow> addr option" where
  "index1 table k = (case lookup table k of None \<Rightarrow> None | Some ptr \<Rightarrow> ptr)"

definition index2 :: "addr option go_map go_map \<Rightarrow> string \<Rightarrow> string \<Rightarrow> addr option" where
  "index2 table k1 k2 =
     index1 (case lookup table k1 of None \<Rightarrow> Nil_map | Some inner \<Rightarrow> inner) k2"

record InternalMetrics =
  eventsReceived :: "addr option go_map go_map"
  eventsProcessed :: "addr option go_map go_map"
  rtcpMessagesProcessed :: "addr option go_map go_map"
  qosMessagesGenerated :: "addr option go_map"
  storageOperations :: "addr option go_map go_map"
  fsConnections :: "addr option go_map"

text \<open>
  The package variables \<open>globalMetrics\<close> (nil at start) and \<open>once\<close> (whether the
  \<open>sync.Once\<close> has run its function), with the memory.
\<close>

record process =
  globalMetrics :: "addr option"
  once :: bool
  registries :: "addr \<rightharpoonup> InternalMetrics"
  next_registry :: addr
  counters :: "addr \<rightharpoonup> 64 word"
  next_counter :: addr

definition initial_process :: process where
  "initial_process =
     \<lparr> globalMetrics = None, once = False, registries = Map.empty, next_registry = 0,
       counters = Map.empty, next_counter = 0 \<rparr>"

text \<open>The composite literal of \<open>GetMetrics\<close>: six made, empty maps.\<close>

definition new_InternalMetrics :: InternalMetrics where
  "new_InternalMetrics =
     \<lparr> eventsReceived = Made Map.empty, eventsProcessed = Made Map.empty,
       rtcpMessagesProcessed = Made Map.empty, qosMessagesGenerated = Made Map.empty,
       storageOperations = Made Map.empty, fsConnections = Made Map.empty \<rparr>"

text \<open>The zero value \<open>InternalMetrics{}\<close>: six nil maps.\<close>

definition zero_InternalMetrics :: InternalMetrics where
  "zero_InternalMetrics =
     \<lparr> eventsReceived = Nil_map, eventsProcessed = Nil_map,
       rtcpMessagesProcessed = Nil_map, qosMessagesGenerated = Nil_map,
       storageOperations = Nil_map, fsConnections = Nil_map \<rparr>"

text \<open>
  \<open>once.Do(f)\<close> runs \<open>f\<close> if it has not run before; \<open>f\<close> allocates the registry and
  stores its address in \<open>globalMetrics\<close>. \<open>GetMetrics\<close> returns \<open>globalMetrics\<close>.
\<close>

definition GetMetrics :: "process \<Rightarrow> addr option \<times> process" where
  "GetMetrics p =
     (let p1 = (if once p then p
                else p\<lparr> registries := (registries p)(next_registry p \<mapsto> new_InternalMetrics),
                        next_registry := Suc (next_registry p),
                        globalMetrics := Some (next_registry p),
                        once := True \<rparr>)
      in (globalMetrics p1, p1))"

text \<open>\<open>var counter int64\<close> followed by \<open>&counter\<close>: a fresh cell holding zero.\<close>

definition new_int64 :: "process \<Rightarrow> addr \<times> process" where
  "new_int64 p =
     (next_counter p,
      p\<lparr> counters := (counters p)(next_counter p \<mapsto> 0),
         next_counter := Suc (next_counter p) \<rparr>)"

text \<open>
  \<open>atomic.AddInt64(ptr, delta)\<close>: the addition wraps around in 64 bits; a nil
  pointer panics (\<open>None\<close>), as does an address that holds no counter.
\<close>

definition atomic_AddInt64 :: "addr option \<Rightarrow> 64 word \<Rightarrow> process \<Rightarrow> process option" where
  "atomic_AddInt64 ptr delta p =
     (case ptr of
        None \<Rightarrow> None
      | Some a \<Rightarrow>
          (case counters p a of
             None \<Rightarrow> None
           | Some v \<Rightarrow> Some (p\<lparr>counters := (counters p)(a \<mapsto> v + delta)\<rparr>)))"

text \<open>
  \<open>IncrementEventsReceived\<close> on the receiver \<open>this\<close>; \<open>None\<close> is a panic. A nil
  receiver panics at the lock. The first \<open>if\<close> assigns a made, empty inner map at
  \<open>instance\<close> when the table has none (a panic when the table is nil). The second
  \<open>if\<close> reads the inner map at \<open>instance\<close> and assigns a fresh counter at
  \<open>eventType\<close> when it has none (a panic when the inner map is nil). The inner map
  is a reference in Go, so that assignment shows in the table; in the model the
  changed inner map is put back into the table. The pointer then found under the
  two keys is handed to \<open>atomic.AddInt64\<close>.
\<close>

definition IncrementEventsReceived ::
  "addr option \<Rightarrow> string \<Rightarrow> string \<Rightarrow> process \<Rightarrow> process option" where
  "IncrementEventsReceived this instance eventType p =
     (case this of
        None \<Rightarrow> None
      | Some r \<Rightarrow>
     (case registries p r of
        None \<Rightarrow> None
      | Some m \<Rightarrow>
     (case (if lookup (eventsReceived m) instance = None
            then assign (eventsReceived m) instance (Made Map.empty)
            else Some (eventsReceived m)) of
        None \<Rightarrow> None
      | Some table1 \<Rightarrow>
     (let inner1 = (case lookup table1 instance of None \<Rightarrow> Nil_map | Some inner \<Rightarrow> inner)
      in case (if lookup inner1 eventType = None
               then (let (counter, p') = new_int64 p
                     in case assign inner1 eventType (Some counter) of
                          None \<Rightarrow> None
                        | Some inner' \<Rightarrow> Some (inner', p'))
               else Some (inner1, p)) of
           None \<Rightarrow> None
         | Some (inner2, p1) \<Rightarrow>
     (case assign table1 instance inner2 of
        None \<Rightarrow> None
      | Some table2 \<Rightarrow>
          atomic_AddInt64 (index2 table2 instance eventType) 1
            (p1\<lparr>registries := (registries p1)(r \<mapsto> m\<lparr>eventsReceived := table2\<rparr>)\<rparr>))))))"

text \<open>
  The counters of a registry by name: the family and the one or two keys. The
  pointer stored under a name, and the value it points to.
\<close>

datatype counter_name =
    EventsReceived string string
  | EventsProcessed string string
  | RTCPMessagesProcessed string string
  | QoSMessagesGenerated string
  | StorageOperations string string
  | FSConnections string

fun counter_ptr :: "InternalMetrics \<Rightarrow> counter_name \<Rightarrow> addr option" where
  "counter_ptr m (EventsReceived i e) = index2 (eventsReceived m) i e"
| "counter_ptr m (EventsProcessed i e) = index2 (eventsProcessed m) i e"
| "counter_ptr m (RTCPMessagesProcessed i d) = index2 (rtcpMessagesProcessed m) i d"
| "counter_ptr m (QoSMessagesGenerated i) = index1 (qosMessagesGenerated m) i"
| "counter_ptr m (StorageOperations o' s) = index2 (storageOperations m) o' s"
| "counter_ptr m (FSConnections i) = index1 (fsConnections m) i"

definition counter_value :: "process \<Rightarrow> addr \<Rightarrow> counter_name \<Rightarrow> 64 word option" where
  "counter_value p r c =
     (case registries p r of
        None \<Rightarrow> None
      | Some m \<Rightarrow> (case counter_ptr m c of None \<Rightarrow> None | Some a \<Rightarrow> counters p a))"

text \<open>
  The table of received events is well formed when it is made, holds no nil inner
  map and no nil pointer: what \<open>GetMetrics\<close> constructs and
  \<open>IncrementEventsReceived\<close> stores.
\<close>

definition table_ok :: "addr option go_map go_map \<Rightarrow> bool" where
  "table_ok table =
     (table \<noteq> Nil_map
      \<and> (\<forall>k1. lookup table k1 \<noteq> Some Nil_map)
      \<and> (\<forall>k1 inner k2. lookup table k1 = Some inner \<longrightarrow> lookup inner k2 \<noteq> Some None))"

text \<open>
  A well-formed table after a fresh counter \<open>a\<close> has been stored under two keys
  that had none: the inner map at the first key, made empty if there was none,
  has the pointer at the second.
\<close>

definition with_counter ::
  "addr option go_map go_map \<Rightarrow> string \<Rightarrow> string \<Rightarrow> addr \<Rightarrow> addr option go_map go_map" where
  "with_counter table k1 k2 a =
     (case table of
        Nil_map \<Rightarrow> Nil_map
      | Made t \<Rightarrow>
          Made (t(k1 \<mapsto> Made ((case t k1 of Some (Made u) \<Rightarrow> u | _ \<Rightarrow> Map.empty)
                                 (k2 \<mapsto> Some a)))))"

text \<open>
  A registry is well formed when its table of received events is, every pointer
  it stores is to an allocated counter and no two names share a counter. The
  methods keep it so: each stores only pointers to counters it has just allocated.
\<close>

definition registry_ok :: "process \<Rightarrow> addr \<Rightarrow> bool" where
  "registry_ok p r =
     (\<exists>m. registries p r = Some m
        \<and> table_ok (eventsReceived m)
        \<and> (\<forall>c a. counter_ptr m c = Some a \<longrightarrow> a < next_counter p \<and> counters p a \<noteq> None)
        \<and> (\<forall>c c' a. counter_ptr m c = Some a \<and> counter_ptr m c' = Some a \<longrightarrow> c = c'))"

text \<open>
  The states a program reaches from \<open>p\<close> by calls of \<open>GetMetrics\<close> and of
  \<open>IncrementEventsReceived\<close> that return, in any order and number.
\<close>

inductive calls :: "process \<Rightarrow> process \<Rightarrow> bool" where
  no_call: "calls p p"
| get_metrics: "calls p q \<Longrightarrow> calls p (snd (GetMetrics q))"
| increment: "calls p q \<Longrightarrow> IncrementEventsReceived this instance eventType q = Some q'
              \<Longrightarrow> calls p q'"

section \<open>The program (cmd/fsagent/main.go)\<close>

text \<open>
  \<open>main\<close> wires the components and calls into packages that are not among the
  sources. What each of those calls returns is an input of the model, gathered in
  \<open>outcomes\<close>: one field per call, holding the error it returns (\<open>None\<close> for nil).
  The model returns how the process ends and the calls it made on the components,
  in order. Every call is taken to return; a process killed from outside is not
  modelled.
\<close>

datatype component =
  HTTP_server | Connection_manager | Event_processor | Metrics_exporter | State_store

text \<open>
  \<open>Stop State_store\<close> is \<open>stateStore.Close()\<close>; \<open>Cancel\<close> is the cancel function of
  the main context.
\<close>

datatype call = Cancel | Start component | Stop component | Log log_level string

datatype ending = Exit nat | Waiting

text \<open>
  \<open>flag.Parse()\<close> (Go standard library) parses the command line of the default
  flag set, whose error handling is \<open>ExitOnError\<close>: a command line it cannot parse
  (an undefined flag, a malformed value) ends the process with status 2; \<open>-h\<close>,
  which is not among the flags defined, prints the usage and ends it with status
  0. Otherwise the flags are set, \<open>-version\<close> and \<open>-help\<close> among them.
\<close>

datatype flag_result = Flags_parsed | Flags_usage | Flags_error

record outcomes =
  flag_Parse :: flag_result
  flag_version :: bool
  flag_help :: bool
  config_Load :: "error option"
  validation_NewStateStore :: "error option"
  validation_Set :: "error option"
  validation_Get :: "error option"
  validation_Delete :: "error option"
  validation_NewMetricsExporter :: "error option"
  validation_exporter_Start :: "error option"
  validation_exporter_Stop :: "error option"
  NewStateStore :: "error option"
  NewMetricsExporter :: "error option"
  eventProcessor_Start :: "error option"
  connManager_Start :: "error option"
  connStatus :: "bool list"
  httpServer_Start :: "error option"
  signal :: bool
  httpServer_Stop :: "error option"
  connManager_Stop :: "error option"
  eventProcessor_Stop :: "error option"
  metricsExporter_Stop :: "error option"
  stateStore_Close :: "error option"

text \<open>
  \<open>connStatus\<close> lists the \<open>Connected\<close> flag of every entry of
  \<open>connManager.GetStatus()\<close>; \<open>signal\<close> says whether an interrupt or SIGTERM ever
  arrives. \<open>NewStateStore\<close> is the outcome of the call of \<open>store.NewStateStore\<close>,
  which \<open>main\<close> makes with the Redis parameters or for the memory store as the
  configuration says; \<open>validation_NewStateStore\<close> is the same for the call in
  \<open>validateStateStore\<close>.
\<close>

definition validateStateStore :: "outcomes \<Rightarrow> error option" where
  "validateStateStore env =
     (case validation_NewStateStore env of
        Some err \<Rightarrow> Some (Errorf (''failed to create state store: '' @ Error err))
      | None \<Rightarrow>
     (case validation_Set env of
        Some err \<Rightarrow> Some (Errorf (''failed to set test state: '' @ Error err))
      | None \<Rightarrow>
     (case validation_Get env of
        Some err \<Rightarrow> Some (Errorf (''failed to get test state: '' @ Error err))
      | None \<Rightarrow>
     (case validation_Delete env of
        Some err \<Rightarrow> Some (Errorf (''failed to delete test state: '' @ Error err))
      | None \<Rightarrow> None))))"

definition validateOTelEndpoint :: "outcomes \<Rightarrow> error option" where
  "validateOTelEndpoint env =
     (case validation_NewMetricsExporter env of
        Some err \<Rightarrow> Some (Errorf (''failed to create test exporter: '' @ Error err))
      | None \<Rightarrow>
     (case validation_exporter_Start env of
        Some err \<Rightarrow> Some (Errorf (''failed to start test exporter: '' @ Error err))
      | None \<Rightarrow> None))"

definition validateStartup :: "outcomes \<Rightarrow> error option" where
  "validateStartup env =
     (case validateStateStore env of
        Some err \<Rightarrow> Some (Errorf (''state store validation failed: '' @ Error err))
      | None \<Rightarrow>
     (case validateOTelEndpoint env of
        Some err \<Rightarrow> Some (Errorf (''OTel endpoint validation failed: '' @ Error err))
      | None \<Rightarrow> None))"

text \<open>
  \<open>gracefulShutdown\<close>: the five steps in the order of the source, each logging
  before the call and logging the result after it; an error of one step does not
  keep the next from running.
\<close>

definition gracefulShutdown :: "outcomes \<Rightarrow> call list" where
  "gracefulShutdown env =
     [Cancel,
      Log INFO ''Stopping HTTP server...'', Stop HTTP_server,
      (case httpServer_Stop env of
         Some err \<Rightarrow> Log ERROR ''Error stopping HTTP server''
       | None \<Rightarrow> Log INFO ''HTTP server stopped''),
      Log INFO ''Stopping connection manager...'', Stop Connection_manager,
      (case connManager_Stop env of
         Some err \<Rightarrow> Log ERROR ''Error stopping connection manager''
       | None \<Rightarrow> Log INFO ''Connection manager stopped''),
      Log INFO ''Stopping event processor...'', Stop Event_processor,
      (case eventProcessor_Stop env of
         Some err \<Rightarrow> Log ERROR ''Error stopping event processor''
       | None \<Rightarrow> Log INFO ''Event processor stopped''),
      Log INFO ''Flushing and stopping metrics exporter...'', Stop Metrics_exporter,
      (case metricsExporter_Stop env of
         Some err \<Rightarrow> Log ERROR ''Error stopping metrics exporter''
       | None \<Rightarrow> Log INFO ''Metrics exporter stopped''),
      Log INFO ''Closing state store...'', Stop State_store,
      (case stateStore_Close env of
         Some err \<Rightarrow> Log ERROR ''Error closing state store''
       | None \<Rightarrow> Log INFO ''State store closed''),
      Log INFO ''Graceful shutdown completed'']"

text \<open>The loop of \<open>main\<close> over the connection status: the number of connected instances.\<close>

fun count_connected :: "bool list \<Rightarrow> nat \<Rightarrow> nat" where
  "count_connected [] activeConnections = activeConnections"
| "count_connected (status # rest) activeConnections =
     count_connected rest (if status then activeConnections + 1 else activeConnections)"

text \<open>
  The deferred calls of \<open>main\<close>, in the order they run when \<open>main\<close> returns (last
  deferred first). \<open>os.Exit\<close> does not run them.
\<close>

definition deferred_calls :: "call list" where
  "deferred_calls =
     [Stop HTTP_server, Stop Connection_manager, Stop Event_processor, Stop State_store, Cancel]"

text \<open>
  \<open>main\<close>. Of its log calls only the warnings and errors are recorded; the calls on
  the temporary store and exporter of the startup validation are not recorded.
\<close>

definition main :: "outcomes \<Rightarrow> ending \<times> call list" where
  "main env =
     (if flag_Parse env = Flags_error then (Exit 2, [])
      else if flag_Parse env = Flags_usage then (Exit 0, [])
      else if flag_version env then (Exit 0, [])
      else if flag_help env then (Exit 0, [])
      else case config_Load env of
        Some err \<Rightarrow> (Exit 1, [])
      | None \<Rightarrow>
     (case validateStartup env of
        Some err \<Rightarrow> (Exit 1, [Log ERROR ''Startup validation failed''])
      | None \<Rightarrow>
     (case NewStateStore env of
        Some err \<Rightarrow> (Exit 1, [Log ERROR ''Failed to initialize state store''])
      | None \<Rightarrow>
     (case NewMetricsExporter env of
        Some err \<Rightarrow> (Exit 1, [Log ERROR ''Failed to initialize metrics exporter''])
      | None \<Rightarrow>
     (case eventProcessor_Start env of
        Some err \<Rightarrow>
          (Exit 1, [Start Event_processor, Log ERROR ''Failed to start event processor''])
      | None \<Rightarrow>
     (let started =
            [Start Event_processor, Start Connection_manager]
            @ (case connManager_Start env of
                 Some err \<Rightarrow> [Log WARN ''Some connections failed to start'']
               | None \<Rightarrow> []);
          activeConnections = count_connected (connStatus env) 0
      in if activeConnections = 0 then
           (Exit 1, started @ [Log ERROR ''No FreeSWITCH connections established''])
         else
           (case httpServer_Start env of
              Some err \<Rightarrow>
                (Exit 1, started @ [Start HTTP_server, Log ERROR ''Failed to start HTTP server''])
            | None \<Rightarrow>
                if \<not> signal env then (Waiting, started @ [Start HTTP_server])
                else (Exit 0,
                      started @ [Start HTTP_server] @ gracefulShutdown env
                      @ deferred_calls))))))))"

text \<open>
  Which component is handed which other component when \<open>main\<close> constructs it: the
  event processor gets the state store and the exporter, the connection manager
  gets the event processor as its forwarder, the HTTP server gets the connection
  manager.
\<close>

fun relies_on :: "component \<Rightarrow> component \<Rightarrow> bool" where
  "relies_on Event_processor State_store = True"
| "relies_on Event_processor Metrics_exporter = True"
| "relies_on Connection_manager Event_processor = True"
| "relies_on HTTP_server Connection_manager = True"
| "relies_on _ _ = False"

text \<open>The components a list of calls stops, in order.\<close>

fun stops :: "call list \<Rightarrow> component list" where
  "stops [] = []"
| "stops (Stop c # rest) = c # stops rest"
| "stops (_ # rest) = stops rest"

text \<open>
  A sequence of stops is in dependency order when no component is stopped after
  one it relies on: \<open>stopped\<close> are the components stopped so far.
\<close>

fun dependency_order :: "component list \<Rightarrow> component list \<Rightarrow> bool" where
  "dependency_order stopped [] = True"
| "dependency_order stopped (c # rest) =
     (list_all (\<lambda>d. \<not> relies_on c d) stopped \<and> dependency_order (c # stopped) rest)"

section \<open>Example inputs\<close>

text \<open>Events and stores at which the properties below are evaluated.\<close>

definition event_of :: "(string \<times> string) list \<Rightarrow> FSEvent" where
  "event_of headers = \<lparr> Headers = map_of headers \<rparr>"

definition state_U1 :: ChannelState where
  "state_U1 = \<lparr> ChannelState.ChannelID = ''U1'', CorrelationID = ''C1'',
                DomainName = ''d.com'', InstanceName = ''fs1'',
                CreatedAt = 0, UpdatedAt = 0 \<rparr>"

definition empty_store :: store_state where
  "empty_store = \<lparr> entries = Map.empty, clock = 0, outages = [] \<rparr>"

definition store_with_U1 :: "bool list \<Rightarrow> store_state" where
  "store_with_U1 faults =
     \<lparr> entries = [''U1'' \<mapsto> (state_U1, 86400)], clock = 10, outages = faults \<rparr>"

definition event_without_marker :: FSEvent where
  "event_without_marker = event_of [(''Unique-ID'', ''U1'')]"

definition event_without_unique_id :: FSEvent where
  "event_without_unique_id = event_of [(''variable_rtp_use_codec_rate'', ''8000'')]"

definition event_scenario_A :: FSEvent where
  "event_scenario_A =
     event_of [(''Unique-ID'', ''U1''), (''variable_rtp_use_codec_rate'', ''8000''),
               (''variable_rtp_audio_in_mos'', ''4.2''),
               (''variable_rtp_audio_in_jitter_min_variance'', ''1.0''),
               (''variable_rtp_audio_in_jitter_max_variance'', ''3.0'')]"

definition event_fallback :: FSEvent where
  "event_fallback =
     event_of [(''Unique-ID'', ''U1''), (''variable_rtp_use_codec_rate'', ''8000''),
               (''Other-Leg-Unique-ID'', ''X''), (''variable_sip_call_id'', ''Y''),
               (''variable_sip_from_host'', ''a.com'')]"

definition event_unparsable :: FSEvent where
  "event_unparsable =
     event_of [(''Unique-ID'', ''U1''), (''variable_rtp_use_codec_rate'', ''8000''),
               (''variable_rtp_audio_in_mos'', ''good''),
               (''variable_rtp_audio_in_packet_count'', ''abc''),
               (''variable_rtp_audio_out_packet_count'', ''5'')]"

definition event_all_unparsable :: FSEvent where
  "event_all_unparsable =
     event_of [(''Unique-ID'', ''U1''), (''variable_rtp_use_codec_rate'', ''8k''),
               (''variable_rtp_audio_in_mos'', ''good''),
               (''variable_rtp_audio_in_jitter_min_variance'', ''1,0''),
               (''variable_rtp_audio_in_packet_count'', ''abc''),
               (''variable_local_media_port'', ''70000''),
               (''Event-Date-Timestamp'', ''now'')]"

definition example_process :: process where
  "example_process =
     \<lparr> globalMetrics = Some 0, once = True,
       registries =
         [0 \<mapsto> new_InternalMetrics
                 \<lparr>eventsReceived :=
                    Made [''fs1'' \<mapsto> Made [''CHANNEL_CREATE'' \<mapsto> Some 0]]\<rparr>],
       next_registry = 1, counters = [0 \<mapsto> 1], next_counter = 1 \<rparr>"

text \<open>A process in which some code has allocated \<open>&InternalMetrics{}\<close>.\<close>

definition zero_value_process :: process where
  "zero_value_process =
     initial_process\<lparr>registries := [0 \<mapsto> zero_InternalMetrics], next_registry := 1\<rparr>"

definition healthy_run :: outcomes where
  "healthy_run =
     \<lparr> flag_Parse = Flags_parsed, flag_version = False, flag_help = False, config_Load = None,
       validation_NewStateStore = None, validation_Set = None, validation_Get = None,
       validation_Delete = None, validation_NewMetricsExporter = None,
       validation_exporter_Start = None, validation_exporter_Stop = None,
       NewStateStore = None, NewMetricsExporter = None, eventProcessor_Start = None,
       connManager_Start = None, connStatus = [False, True], httpServer_Start = None,
       signal = True, httpServer_Stop = None, connManager_Stop = None,
       eventProcessor_Stop = None, metricsExporter_Stop = None, stateStore_Close = None \<rparr>"

definition http_port_taken :: outcomes where
  "http_port_taken = healthy_run\<lparr>httpServer_Start := Some (Errorf ''address already in use'')\<rparr>"

definition noisy_run :: outcomes where
  "noisy_run =
     healthy_run\<lparr>connManager_Start := Some (Errorf ''fs2 unreachable''),
                 metricsExporter_Stop := Some (Errorf ''flush timed out''),
                 stateStore_Close := Some (Errorf ''connection reset'')\<rparr>"

definition bad_flag_run :: outcomes where
  "bad_flag_run = healthy_run\<lparr>flag_Parse := Flags_error\<rparr>"

section \<open>Properties of the QoS calculator\<close>

subsection \<open>The helpers never fail\<close>

lemma extractQualityMetrics_nil: "fst (extractQualityMetrics sc event m) = None"
  by (simp add: extractQualityMetrics_def Let_def)

lemma extractTrafficMetrics_nil: "fst (extractTrafficMetrics sc event m) = None"
  by (simp add: extractTrafficMetrics_def Let_def)

lemma extractCodecInfo_nil: "fst (extractCodecInfo sc event m) = None"
  by (simp add: extractCodecInfo_def Let_def)

lemma extractStateAndDomain_nil: "fst (extractStateAndDomain store s event m) = None"
  by (simp add: extractStateAndDomain_def Let_def split: prod.splits sum.splits option.splits)

text \<open>
  With the marker and a channel id, \<open>CalculateMetrics\<close> runs the three helpers and
  the state lookup, and returns what the lookup leaves.
\<close>

lemma CalculateMetrics_proceeds:
  assumes "GetHeader event ''variable_rtp_use_codec_rate'' \<noteq> []"
    and "GetHeader event ''Unique-ID'' \<noteq> []"
  shows "CalculateMetrics sc store now s event instanceName =
           (case extractStateAndDomain store s event (extracted sc now event instanceName) of
              (_, m, s', lg) \<Rightarrow>
                (Some m, None, s', lg @ [(DEBUG, ''QoS metrics calculated successfully'')]))"
proof -
  let ?m0 = "new_QoSMetrics now instanceName (GetHeader event ''Unique-ID'')"
  obtain m1 where q: "extractQualityMetrics sc event ?m0 = (None, m1)"
    using extractQualityMetrics_nil [of sc event ?m0]
    by (cases "extractQualityMetrics sc event ?m0") simp
  obtain m2 where t: "extractTrafficMetrics sc event m1 = (None, m2)"
    using extractTrafficMetrics_nil [of sc event m1]
    by (cases "extractTrafficMetrics sc event m1") simp
  obtain m3 where c: "extractCodecInfo sc event m2 = (None, m3)"
    using extractCodecInfo_nil [of sc event m2]
    by (cases "extractCodecInfo sc event m2") simp
  obtain m4 s' lg where d: "extractStateAndDomain store s event m3 = (None, m4, s', lg)"
    using extractStateAndDomain_nil [of store s event m3]
    by (cases "extractStateAndDomain store s event m3") simp
  have e: "extracted sc now event instanceName = m3"
    by (simp add: extracted_def q t c)
  show ?thesis
    using assms by (simp add: CalculateMetrics_def Let_def q t c d e)
qed

subsection \<open>Conditional updates as updates\<close>

text \<open>
  A field that is assigned under a condition is an update by a conditional function;
  in this form the record laws read any field off a chain of assignments without a
  case split per assignment.
\<close>

lemma if_update:
  "(if c then MOSScore_update fMOSScore m else m) = MOSScore_update (\<lambda>v. if c then fMOSScore v else v) m"
  "(if c then AvgJitter_update fAvgJitter m else m) = AvgJitter_update (\<lambda>v. if c then fAvgJitter v else v) m"
  "(if c then MinJitter_update fMinJitter m else m) = MinJitter_update (\<lambda>v. if c then fMinJitter v else v) m"
  "(if c then MaxJitter_update fMaxJitter m else m) = MaxJitter_update (\<lambda>v. if c then fMaxJitter v else v) m"
  "(if c then Delta_update fDelta m else m) = Delta_update (\<lambda>v. if c then fDelta v else v) m"
  "(if c then CodecName_update fCodecName m else m) = CodecName_update (\<lambda>v. if c then fCodecName v else v) m"
  "(if c then CodecPT_update fCodecPT m else m) = CodecPT_update (\<lambda>v. if c then fCodecPT v else v) m"
  "(if c then PTime_update fPTime m else m) = PTime_update (\<lambda>v. if c then fPTime v else v) m"
  "(if c then ClockRate_update fClockRate m else m) = ClockRate_update (\<lambda>v. if c then fClockRate v else v) m"
  "(if c then SrcIP_update fSrcIP m else m) = SrcIP_update (\<lambda>v. if c then fSrcIP v else v) m"
  "(if c then SrcPort_update fSrcPort m else m) = SrcPort_update (\<lambda>v. if c then fSrcPort v else v) m"
  "(if c then DstIP_update fDstIP m else m) = DstIP_update (\<lambda>v. if c then fDstIP v else v) m"
  "(if c then DstPort_update fDstPort m else m) = DstPort_update (\<lambda>v. if c then fDstPort v else v) m"
  "(if c then ReportTimestamp_update fReportTimestamp m else m) = ReportTimestamp_update (\<lambda>v. if c then fReportTimestamp v else v) m"
  by simp_all

lemma case_update:
  "(case pMOSScore of None \<Rightarrow> m | Some x \<Rightarrow> MOSScore_update (gMOSScore x) m) =
     MOSScore_update (\<lambda>v. case pMOSScore of None \<Rightarrow> v | Some x \<Rightarrow> gMOSScore x v) m"
  "(case pAvgJitter of None \<Rightarrow> m | Some x \<Rightarrow> AvgJitter_update (gAvgJitter x) m) =
     AvgJitter_update (\<lambda>v. case pAvgJitter of None \<Rightarrow> v | Some x \<Rightarrow> gAvgJitter x v) m"
  "(case pMinJitter of None \<Rightarrow> m | Some x \<Rightarrow> MinJitter_update (gMinJitter x) m) =
     MinJitter_update (\<lambda>v. case pMinJitter of None \<Rightarrow> v | Some x \<Rightarrow> gMinJitter x v) m"
  "(case pMaxJitter of None \<Rightarrow> m | Some x \<Rightarrow> MaxJitter_update (gMaxJitter x) m) =
     MaxJitter_update (\<lambda>v. case pMaxJitter of None \<Rightarrow> v | Some x \<Rightarrow> gMaxJitter x v) m"
  "(case pDelta of None \<Rightarrow> m | Some x \<Rightarrow> Delta_update (gDelta x) m) =
     Delta_update (\<lambda>v. case pDelta of None \<Rightarrow> v | Some x \<Rightarrow> gDelta x v) m"
  "(case pCodecName of None \<Rightarrow> m | Some x \<Rightarrow> CodecName_update (gCodecName x) m) =
     CodecName_update (\<lambda>v. case pCodecName of None \<Rightarrow> v | Some x \<Rightarrow> gCodecName x v) m"
  "(case pCodecPT of None \<Rightarrow> m | Some x \<Rightarrow> CodecPT_update (gCodecPT x) m) =
     CodecPT_update (\<lambda>v. case pCodecPT of None \<Rightarrow> v | Some x \<Rightarrow> gCodecPT x v) m"
  "(case pPTime of None \<Rightarrow> m | Some x \<Rightarrow> PTime_update (gPTime x) m) =
     PTime_update (\<lambda>v. case pPTime of None \<Rightarrow> v | Some x \<Rightarrow> gPTime x v) m"
  "(case pClockRate of None \<Rightarrow> m | Some x \<Rightarrow> ClockRate_update (gClockRate x) m) =
     ClockRate_update (\<lambda>v. case pClockRate of None \<Rightarrow> v | Some x \<Rightarrow> gClockRate x v) m"
  "(case pSrcIP of None \<Rightarrow> m | Some x \<Rightarrow> SrcIP_update (gSrcIP x) m) =
     SrcIP_update (\<lambda>v. case pSrcIP of None \<Rightarrow> v | Some x \<Rightarrow> gSrcIP x v) m"
  "(case pSrcPort of None \<Rightarrow> m | Some x \<Rightarrow> SrcPort_update (gSrcPort x) m) =
     SrcPort_update (\<lambda>v. case pSrcPort of None \<Rightarrow> v | Some x \<Rightarrow> gSrcPort x v) m"
  "(case pDstIP of None \<Rightarrow> m | Some x \<Rightarrow> DstIP_update (gDstIP x) m) =
     DstIP_update (\<lambda>v. case pDstIP of None \<Rightarrow> v | Some x \<Rightarrow> gDstIP x v) m"
  "(case pDstPort of None \<Rightarrow> m | Some x \<Rightarrow> DstPort_update (gDstPort x) m) =
     DstPort_update (\<lambda>v. case pDstPort of None \<Rightarrow> v | Some x \<Rightarrow> gDstPort x v) m"
  "(case pReportTimestamp of None \<Rightarrow> m | Some x \<Rightarrow> ReportTimestamp_update (gReportTimestamp x) m) =
     ReportTimestamp_update (\<lambda>v. case pReportTimestamp of None \<Rightarrow> v | Some x \<Rightarrow> gReportTimestamp x v) m"
  by (simp_all split: option.splits)

lemmas update_norm = if_update case_update

subsection \<open>What each helper leaves alone\<close>

lemma extractQualityMetrics_frame:
  "QoSMetrics.ChannelID (snd (extractQualityMetrics sc event m)) = QoSMetrics.ChannelID m"
  "QoSMetrics.CorrelationID (snd (extractQualityMetrics sc event m)) = QoSMetrics.CorrelationID m"
  "QoSMetrics.DomainName (snd (extractQualityMetrics sc event m)) = QoSMetrics.DomainName m"
  "QoSMetrics.InstanceName (snd (extractQualityMetrics sc event m)) = QoSMetrics.InstanceName m"
  "Timestamp (snd (extractQualityMetrics sc event m)) = Timestamp m"
  "TotalPackets (snd (extractQualityMetrics sc event m)) = TotalPackets m"
  "PacketLoss (snd (extractQualityMetrics sc event m)) = PacketLoss m"
  "TotalBytes (snd (extractQualityMetrics sc event m)) = TotalBytes m"
  "CodecName (snd (extractQualityMetrics sc event m)) = CodecName m"
  "CodecPT (snd (extractQualityMetrics sc event m)) = CodecPT m"
  "PTime (snd (extractQualityMetrics sc event m)) = PTime m"
  "ClockRate (snd (extractQualityMetrics sc event m)) = ClockRate m"
  "SrcIP (snd (extractQualityMetrics sc event m)) = SrcIP m"
  "SrcPort (snd (extractQualityMetrics sc event m)) = SrcPort m"
  "DstIP (snd (extractQualityMetrics sc event m)) = DstIP m"
  "DstPort (snd (extractQualityMetrics sc event m)) = DstPort m"
  "ReportTimestamp (snd (extractQualityMetrics sc event m)) = ReportTimestamp m"
  by (simp_all add: extractQualityMetrics_def Let_def update_norm
      split del: if_split cong del: if_weak_cong option.case_cong_weak)

lemma extractTrafficMetrics_frame:
  "QoSMetrics.ChannelID (snd (extractTrafficMetrics sc event m)) = QoSMetrics.ChannelID m"
  "QoSMetrics.CorrelationID (snd (extractTrafficMetrics sc event m)) = QoSMetrics.CorrelationID m"
  "QoSMetrics.DomainName (snd (extractTrafficMetrics sc event m)) = QoSMetrics.DomainName m"
  "QoSMetrics.InstanceName (snd (extractTrafficMetrics sc event m)) = QoSMetrics.InstanceName m"
  "Timestamp (snd (extractTrafficMetrics sc event m)) = Timestamp m"
  "MOSScore (snd (extractTrafficMetrics sc event m)) = MOSScore m"
  "AvgJitter (snd (extractTrafficMetrics sc event m)) = AvgJitter m"
  "MinJitter (snd (extractTrafficMetrics sc event m)) = MinJitter m"
  "MaxJitter (snd (extractTrafficMetrics sc event m)) = MaxJitter m"
  "Delta (snd (extractTrafficMetrics sc event m)) = Delta m"
  "CodecName (snd (extractTrafficMetrics sc event m)) = CodecName m"
  "CodecPT (snd (extractTrafficMetrics sc event m)) = CodecPT m"
  "PTime (snd (extractTrafficMetrics sc event m)) = PTime m"
  "ClockRate (snd (extractTrafficMetrics sc event m)) = ClockRate m"
  "SrcIP (snd (extractTrafficMetrics sc event m)) = SrcIP m"
  "SrcPort (snd (extractTrafficMetrics sc event m)) = SrcPort m"
  "DstIP (snd (extractTrafficMetrics sc event m)) = DstIP m"
  "DstPort (snd (extractTrafficMetrics sc event m)) = DstPort m"
  "ReportTimestamp (snd (extractTrafficMetrics sc event m)) = ReportTimestamp m"
  by (simp_all add: extractTrafficMetrics_def Let_def)

lemma extractCodecInfo_frame:
  "QoSMetrics.ChannelID (snd (extractCodecInfo sc event m)) = QoSMetrics.ChannelID m"
  "QoSMetrics.CorrelationID (snd (extractCodecInfo sc event m)) = QoSMetrics.CorrelationID m"
  "QoSMetrics.DomainName (snd (extractCodecInfo sc event m)) = QoSMetrics.DomainName m"
  "QoSMetrics.InstanceName (snd (extractCodecInfo sc event m)) = QoSMetrics.InstanceName m"
  "Timestamp (snd (extractCodecInfo sc event m)) = Timestamp m"
  "MOSScore (snd (extractCodecInfo sc event m)) = MOSScore m"
  "AvgJitter (snd (extractCodecInfo sc event m)) = AvgJitter m"
  "MinJitter (snd (extractCodecInfo sc event m)) = MinJitter m"
  "MaxJitter (snd (extractCodecInfo sc event m)) = MaxJitter m"
  "Delta (snd (extractCodecInfo sc event m)) = Delta m"
  "TotalPackets (snd (extractCodecInfo sc event m)) = TotalPackets m"
  "PacketLoss (snd (extractCodecInfo sc event m)) = PacketLoss m"
  "TotalBytes (snd (extractCodecInfo sc event m)) = TotalBytes m"
  by (simp_all add: extractCodecInfo_def Let_def update_norm
      split del: if_split cong del: if_weak_cong option.case_cong_weak)

subsection \<open>What each helper assigns\<close>

lemma extractQualityMetrics_values:
  "MOSScore (snd (extractQualityMetrics sc event m)) =
     (if GetHeader event ''variable_rtp_audio_in_mos'' \<noteq> [] then
        (case ParseFloat sc (GetHeader event ''variable_rtp_audio_in_mos'') 64 of
           None \<Rightarrow> MOSScore m | Some v \<Rightarrow> v)
      else MOSScore m)"
  "MinJitter (snd (extractQualityMetrics sc event m)) =
     (if GetHeader event ''variable_rtp_audio_in_jitter_min_variance'' \<noteq> [] then
        (case ParseFloat sc (GetHeader event ''variable_rtp_audio_in_jitter_min_variance'') 64 of
           None \<Rightarrow> MinJitter m | Some v \<Rightarrow> v)
      else MinJitter m)"
  "MaxJitter (snd (extractQualityMetrics sc event m)) =
     (if GetHeader event ''variable_rtp_audio_in_jitter_max_variance'' \<noteq> [] then
        (case ParseFloat sc (GetHeader event ''variable_rtp_audio_in_jitter_max_variance'') 64 of
           None \<Rightarrow> MaxJitter m | Some v \<Rightarrow> v)
      else MaxJitter m)"
  "Delta (snd (extractQualityMetrics sc event m)) =
     (if GetHeader event ''variable_rtp_audio_in_mean_interval'' \<noteq> [] then
        (case ParseFloat sc (GetHeader event ''variable_rtp_audio_in_mean_interval'') 64 of
           None \<Rightarrow> Delta m | Some v \<Rightarrow> v)
      else Delta m)"
  "AvgJitter (snd (extractQualityMetrics sc event m)) =
     (if MinJitter (snd (extractQualityMetrics sc event m)) > 0
         \<or> MaxJitter (snd (extractQualityMetrics sc event m)) > 0
      then (MinJitter (snd (extractQualityMetrics sc event m))
            + MaxJitter (snd (extractQualityMetrics sc event m))) / 2
      else AvgJitter m)"
  by (simp_all add: extractQualityMetrics_def Let_def update_norm
      split del: if_split cong del: if_weak_cong option.case_cong_weak)

lemma extractTrafficMetrics_values:
  "TotalPackets (snd (extractTrafficMetrics sc event m)) =
     parsed_int64 sc event ''variable_rtp_audio_in_packet_count''
     + parsed_int64 sc event ''variable_rtp_audio_out_packet_count''"
  "TotalBytes (snd (extractTrafficMetrics sc event m)) =
     parsed_int64 sc event ''variable_rtp_audio_in_media_bytes''
     + parsed_int64 sc event ''variable_rtp_audio_out_media_bytes''"
  "PacketLoss (snd (extractTrafficMetrics sc event m)) =
     parsed_int64 sc event ''variable_rtp_audio_in_skip_packet_count''
     + parsed_int64 sc event ''variable_rtp_audio_out_skip_packet_count''"
  by (simp_all add: extractTrafficMetrics_def Let_def)

lemma parsed_int64_unparsable:
  "ParseInt sc (GetHeader event name) 10 64 = None \<Longrightarrow> parsed_int64 sc event name = 0"
  by (simp add: parsed_int64_def Let_def)

lemma parsed_int64_absent:
  "GetHeader event name = [] \<Longrightarrow> parsed_int64 sc event name = 0"
  by (simp add: parsed_int64_def Let_def)

lemma parsed_int64_parsed:
  "GetHeader event name \<noteq> [] \<Longrightarrow> ParseInt sc (GetHeader event name) 10 64 = Some v
     \<Longrightarrow> parsed_int64 sc event name = v"
  by (simp add: parsed_int64_def Let_def)

lemma extractCodecInfo_values:
  "CodecPT (snd (extractCodecInfo sc event m)) =
     (if GetHeader event ''variable_rtp_use_codec_pt'' \<noteq> [] then
        (case Atoi sc (GetHeader event ''variable_rtp_use_codec_pt'') of
           None \<Rightarrow> CodecPT m | Some v \<Rightarrow> v)
      else CodecPT m)"
  "PTime (snd (extractCodecInfo sc event m)) =
     (if GetHeader event ''variable_rtp_use_codec_ptime'' \<noteq> [] then
        (case Atoi sc (GetHeader event ''variable_rtp_use_codec_ptime'') of
           None \<Rightarrow> PTime m | Some v \<Rightarrow> v)
      else PTime m)"
  "ClockRate (snd (extractCodecInfo sc event m)) =
     (if GetHeader event ''variable_rtp_use_codec_rate'' \<noteq> [] then
        (case Atoi sc (GetHeader event ''variable_rtp_use_codec_rate'') of
           None \<Rightarrow> ClockRate m | Some v \<Rightarrow> v)
      else ClockRate m)"
  "SrcPort (snd (extractCodecInfo sc event m)) =
     (if GetHeader event ''variable_local_media_port'' \<noteq> [] then
        (case ParseUint sc (GetHeader event ''variable_local_media_port'') 10 16 of
           None \<Rightarrow> SrcPort m | Some v \<Rightarrow> ucast v)
      else SrcPort m)"
  "DstPort (snd (extractCodecInfo sc event m)) =
     (if GetHeader event ''variable_remote_media_port'' \<noteq> [] then
        (case ParseUint sc (GetHeader event ''variable_remote_media_port'') 10 16 of
           None \<Rightarrow> DstPort m | Some v \<Rightarrow> ucast v)
      else DstPort m)"
  "ReportTimestamp (snd (extractCodecInfo sc event m)) =
     (if GetHeader event ''Event-Date-Timestamp'' \<noteq> [] then
        (case ParseInt sc (GetHeader event ''Event-Date-Timestamp'') 10 64 of
           None \<Rightarrow> ReportTimestamp m | Some v \<Rightarrow> v)
      else ReportTimestamp m)"
  by (simp_all add: extractCodecInfo_def Let_def update_norm
      split del: if_split cong del: if_weak_cong option.case_cong_weak)

subsection \<open>The metrics before the state lookup\<close>

lemma extracted_ids:
  "QoSMetrics.ChannelID (extracted sc now event inst) = GetHeader event ''Unique-ID''"
  "QoSMetrics.CorrelationID (extracted sc now event inst) = []"
  "QoSMetrics.DomainName (extracted sc now event inst) = []"
  "QoSMetrics.InstanceName (extracted sc now event inst) = inst"
  by (simp_all add: extracted_def extractQualityMetrics_frame extractTrafficMetrics_frame
      extractCodecInfo_frame new_QoSMetrics_def)

lemma extracted_quality:
  "MOSScore (extracted sc now event inst) =
     MOSScore (snd (extractQualityMetrics sc event
       (new_QoSMetrics now inst (GetHeader event ''Unique-ID''))))"
  "MinJitter (extracted sc now event inst) =
     MinJitter (snd (extractQualityMetrics sc event
       (new_QoSMetrics now inst (GetHeader event ''Unique-ID''))))"
  "MaxJitter (extracted sc now event inst) =
     MaxJitter (snd (extractQualityMetrics sc event
       (new_QoSMetrics now inst (GetHeader event ''Unique-ID''))))"
  "AvgJitter (extracted sc now event inst) =
     AvgJitter (snd (extractQualityMetrics sc event
       (new_QoSMetrics now inst (GetHeader event ''Unique-ID''))))"
  "Delta (extracted sc now event inst) =
     Delta (snd (extractQualityMetrics sc event
       (new_QoSMetrics now inst (GetHeader event ''Unique-ID''))))"
  by (simp_all add: extracted_def extractTrafficMetrics_frame extractCodecInfo_frame)

lemma extracted_traffic:
  "TotalPackets (extracted sc now event inst) =
     parsed_int64 sc event ''variable_rtp_audio_in_packet_count''
     + parsed_int64 sc event ''variable_rtp_audio_out_packet_count''"
  "TotalBytes (extracted sc now event inst) =
     parsed_int64 sc event ''variable_rtp_audio_in_media_bytes''
     + parsed_int64 sc event ''variable_rtp_audio_out_media_bytes''"
  "PacketLoss (extracted sc now event inst) =
     parsed_int64 sc event ''variable_rtp_audio_in_skip_packet_count''
     + parsed_int64 sc event ''variable_rtp_audio_out_skip_packet_count''"
  by (simp_all add: extracted_def extractTrafficMetrics_values extractCodecInfo_frame)

subsection \<open>The state lookup\<close>

lemma extractStateAndDomain_found:
  assumes "Get store s (QoSMetrics.ChannelID m) = (Inr state, s1)"
  shows "extractStateAndDomain store s event m =
     (None, m\<lparr>QoSMetrics.CorrelationID := ChannelState.CorrelationID state,
               QoSMetrics.DomainName := ChannelState.DomainName state\<rparr>,
      snd (Delete store s1 (QoSMetrics.ChannelID m)),
      (case fst (Delete store s1 (QoSMetrics.ChannelID m)) of
         None \<Rightarrow> []
       | Some delErr \<Rightarrow> [(WARN, ''Failed to delete channel state after QoS calculation'')]))"
  using assms by (simp add: extractStateAndDomain_def Let_def split: prod.splits option.splits)

lemma extractStateAndDomain_not_found:
  assumes "Get store s (QoSMetrics.ChannelID m) = (Inl err, s1)"
    and "QoSMetrics.CorrelationID m = []" and "QoSMetrics.DomainName m = []"
  shows "extractStateAndDomain store s event m =
     (None,
      m\<lparr>QoSMetrics.CorrelationID :=
          first_non_empty (map (GetHeader event)
            [''Other-Leg-Unique-ID'', ''Unique-ID'', ''variable_sip_call_id'',
             ''variable_global_call_id'']),
         QoSMetrics.DomainName :=
          first_non_empty (map (GetHeader event)
            [''variable_domain_name'', ''variable_sip_from_host'', ''variable_sip_to_host''])\<rparr>,
      s1, [])"
  using assms by (simp add: extractStateAndDomain_def Let_def)

text \<open>The lookup changes the correlation id and the domain name, nothing else.\<close>

lemma extractStateAndDomain_changes:
  "\<exists>c d. fst (snd (extractStateAndDomain store s event m)) =
           m\<lparr>QoSMetrics.CorrelationID := c, QoSMetrics.DomainName := d\<rparr>"
proof (cases "Get store s (QoSMetrics.ChannelID m)")
  case (Pair r s1)
  show ?thesis
  proof (cases r)
    case (Inr state)
    with Pair show ?thesis
      by (simp add: extractStateAndDomain_found) blast
  next
    case (Inl err)
    have "fst (snd (extractStateAndDomain store s event m)) =
            m\<lparr>QoSMetrics.CorrelationID := QoSMetrics.CorrelationID
                   (fst (snd (extractStateAndDomain store s event m))),
               QoSMetrics.DomainName := QoSMetrics.DomainName
                   (fst (snd (extractStateAndDomain store s event m)))\<rparr>"
      using Pair Inl by (simp add: extractStateAndDomain_def Let_def)
    then show ?thesis by blast
  qed
qed

lemma CalculateMetrics_metric:
  assumes "GetHeader event ''variable_rtp_use_codec_rate'' \<noteq> []"
    and "GetHeader event ''Unique-ID'' \<noteq> []"
  shows "\<exists>c d s' lg. CalculateMetrics sc store now s event inst =
           (Some ((extracted sc now event inst)
                    \<lparr>QoSMetrics.CorrelationID := c, QoSMetrics.DomainName := d\<rparr>),
            None, s', lg)"
proof -
  obtain c d where "fst (snd (extractStateAndDomain store s event (extracted sc now event inst))) =
      (extracted sc now event inst)\<lparr>QoSMetrics.CorrelationID := c, QoSMetrics.DomainName := d\<rparr>"
    using extractStateAndDomain_changes [of store s event "extracted sc now event inst"]
    by (elim exE)
  then show ?thesis
    by (cases "extractStateAndDomain store s event (extracted sc now event inst)")
       (auto simp: CalculateMetrics_proceeds [OF assms])
qed

subsection \<open>The store of the spec\<close>

lemma store_Get_live:
  "live s key state \<Longrightarrow> \<not> backend_fails s \<Longrightarrow> store_Get s key = (Inr state, operation_done s)"
  by (auto simp: live_def store_Get_def split: option.splits)

lemma store_Get_gone:
  assumes "entries t key = None"
  shows "fst (store_Get t key) = Inl (if backend_fails t then ErrBackend else ErrNotFound)"
  using assms by (simp add: store_Get_def)

lemma store_Get_expired:
  assumes "entries t key = Some (state, expiry)" and "expiry \<le> clock t"
  shows "fst (store_Get t key) = Inl (if backend_fails t then ErrBackend else ErrNotFound)"
  using assms by (simp add: store_Get_def)

lemma store_Get_outage:
  assumes "backend_fails t"
  shows "fst (store_Get t key) = Inl ErrBackend"
  using assms by (simp add: store_Get_def)

lemma store_Delete_entries:
  "entries (snd (store_Delete s key)) =
     (if backend_fails s then entries s else (entries s)(key := None))"
  by (simp add: store_Delete_def operation_done_def)

lemma store_Delete_error:
  "fst (store_Delete s key) = (if backend_fails s then Some ErrBackend else None)"
  by (simp add: store_Delete_def)

lemma operation_done_fields:
  "entries (operation_done s) = entries s" "clock (operation_done s) = clock s"
  by (simp_all add: operation_done_def)

subsection \<open>Example events\<close>

lemma example_headers:
  "GetHeader event_scenario_A ''variable_rtp_use_codec_rate'' = ''8000''"
  "GetHeader event_scenario_A ''Unique-ID'' = ''U1''"
  "GetHeader event_scenario_A ''variable_rtp_audio_in_mos'' = ''4.2''"
  "GetHeader event_scenario_A ''variable_rtp_audio_in_jitter_min_variance'' = ''1.0''"
  "GetHeader event_scenario_A ''variable_rtp_audio_in_jitter_max_variance'' = ''3.0''"
  "GetHeader event_without_marker ''variable_rtp_use_codec_rate'' = []"
  "GetHeader event_fallback ''variable_rtp_use_codec_rate'' = ''8000''"
  "GetHeader event_fallback ''Unique-ID'' = ''U1''"
  "GetHeader event_fallback ''Other-Leg-Unique-ID'' = ''X''"
  "GetHeader event_fallback ''variable_sip_call_id'' = ''Y''"
  "GetHeader event_fallback ''variable_domain_name'' = []"
  "GetHeader event_fallback ''variable_sip_from_host'' = ''a.com''"
  by (simp_all add: event_scenario_A_def event_without_marker_def event_fallback_def
      event_of_def GetHeader_def)

text \<open>
  For any store: when \<open>Get\<close> returns a state, the metric carries its ids, \<open>Delete\<close>
  is called on the state \<open>Get\<close> left, and a failing \<open>Delete\<close> costs a warning only.
\<close>

lemma CalculateMetrics_state_found:
  assumes marker: "GetHeader event ''variable_rtp_use_codec_rate'' \<noteq> []"
    and uid: "GetHeader event ''Unique-ID'' = channelID" "channelID \<noteq> []"
    and found: "Get store s channelID = (Inr state, s1)"
  shows "\<exists>m lg. CalculateMetrics sc store now s event inst =
                  (Some m, None, snd (Delete store s1 channelID), lg)
           \<and> QoSMetrics.CorrelationID m = ChannelState.CorrelationID state
           \<and> QoSMetrics.DomainName m = ChannelState.DomainName state
           \<and> QoSMetrics.ChannelID m = channelID
           \<and> (fst (Delete store s1 channelID) \<noteq> None \<longrightarrow>
                 lg = [(WARN, ''Failed to delete channel state after QoS calculation''),
                       (DEBUG, ''QoS metrics calculated successfully'')])"
proof -
  have p: "GetHeader event ''Unique-ID'' \<noteq> []" using uid by simp
  have g: "Get store s (QoSMetrics.ChannelID (extracted sc now event inst)) = (Inr state, s1)"
    using found uid by (simp add: extracted_ids)
  show ?thesis
    using uid
    by (auto simp: CalculateMetrics_proceeds [OF marker p] extractStateAndDomain_found [OF g]
        extracted_ids)
qed

text \<open>
  C1 (as amended). For a termination event (marker present, \<open>Unique-ID\<close> not empty)
  whose channel id has a live state in the store, with the lookup succeeding,
  \<open>CalculateMetrics\<close> emits a metric carrying that state's CorrelationID and
  DomainName and calls \<open>Delete\<close> for the channel id at once. When the \<open>Delete\<close>
  succeeds the entry is gone and a following \<open>Get\<close> returns not-found (a backend
  error if the backend fails that \<open>Get\<close>), never a state. When the \<open>Delete\<close> fails
  the metric is emitted all the same, a warning is logged and the entries are as
  they were.
\<close>

theorem CalculateMetrics_consumes_live_state:
  assumes marker: "GetHeader event ''variable_rtp_use_codec_rate'' \<noteq> []"
    and uid: "GetHeader event ''Unique-ID'' = channelID" "channelID \<noteq> []"
    and lv: "live s channelID state" and up: "\<not> backend_fails s"
  shows "\<exists>m s' lg. CalculateMetrics sc spec_store now s event inst = (Some m, None, s', lg)
           \<and> QoSMetrics.CorrelationID m = ChannelState.CorrelationID state
           \<and> QoSMetrics.DomainName m = ChannelState.DomainName state
           \<and> (if backend_fails (operation_done s)
               then entries s' = entries s
                    \<and> lg = [(WARN, ''Failed to delete channel state after QoS calculation''),
                            (DEBUG, ''QoS metrics calculated successfully'')]
               else entries s' channelID = None
                    \<and> fst (store_Get s' channelID)
                        = Inl (if backend_fails s' then ErrBackend else ErrNotFound))"
proof -
  have g: "Get spec_store s channelID = (Inr state, operation_done s)"
    using lv up by (simp add: spec_store_def store_Get_live)
  obtain m lg where r: "CalculateMetrics sc spec_store now s event inst =
        (Some m, None, snd (Delete spec_store (operation_done s) channelID), lg)"
    and c: "QoSMetrics.CorrelationID m = ChannelState.CorrelationID state"
    and d: "QoSMetrics.DomainName m = ChannelState.DomainName state"
    and w: "fst (Delete spec_store (operation_done s) channelID) \<noteq> None \<longrightarrow>
                 lg = [(WARN, ''Failed to delete channel state after QoS calculation''),
                       (DEBUG, ''QoS metrics calculated successfully'')]"
    using CalculateMetrics_state_found [OF marker uid g, of sc now inst] by blast
  let ?s' = "snd (store_Delete (operation_done s) channelID)"
  have e: "entries ?s' = (if backend_fails (operation_done s) then entries s
                          else (entries s)(channelID := None))"
    by (simp add: store_Delete_entries operation_done_fields)
  have "backend_fails (operation_done s) \<Longrightarrow> lg = [(WARN, ''Failed to delete channel state after QoS calculation''),
                       (DEBUG, ''QoS metrics calculated successfully'')]"
    using w by (simp add: spec_store_def store_Delete_error)
  moreover have "\<not> backend_fails (operation_done s) \<Longrightarrow>
      fst (store_Get ?s' channelID) = Inl (if backend_fails ?s' then ErrBackend else ErrNotFound)"
    using e by (intro store_Get_gone) simp
  ultimately show ?thesis
    using r c d e by (simp add: spec_store_def)
qed


theorem CalculateMetrics_consumes_live_state_witness:
  "GetHeader event_scenario_A ''variable_rtp_use_codec_rate'' \<noteq> []
   \<and> GetHeader event_scenario_A ''Unique-ID'' = ''U1''
   \<and> live (store_with_U1 []) ''U1'' state_U1
   \<and> \<not> backend_fails (store_with_U1 [])
   \<and> (\<exists>m s' lg. CalculateMetrics go_strconv spec_store 100 (store_with_U1 [])
                     event_scenario_A ''fs1'' = (Some m, None, s', lg)
          \<and> QoSMetrics.CorrelationID m = ''C1'' \<and> QoSMetrics.DomainName m = ''d.com''
          \<and> entries s' ''U1'' = None
          \<and> fst (store_Get s' ''U1'') = Inl ErrNotFound)"
proof -
  have a: "GetHeader event_scenario_A ''variable_rtp_use_codec_rate'' \<noteq> []"
    and b: "GetHeader event_scenario_A ''Unique-ID'' = ''U1''" and b': "''U1'' \<noteq> []"
    by (simp_all add: example_headers)
  have c: "live (store_with_U1 []) ''U1'' state_U1"
    by (simp add: live_def store_with_U1_def)
  have d: "\<not> backend_fails (store_with_U1 [])"
    by (simp add: backend_fails_def store_with_U1_def)
  have e: "\<not> backend_fails (operation_done (store_with_U1 []))"
    by (simp add: backend_fails_def operation_done_def store_with_U1_def)
  have f: "\<not> backend_fails s'" if "outages s' = []" for s'
    using that by (simp add: backend_fails_def)
  obtain m s' lg where
    r: "CalculateMetrics go_strconv spec_store 100 (store_with_U1 []) event_scenario_A ''fs1'' =
          (Some m, None, s', lg)"
    and ids: "QoSMetrics.CorrelationID m = ChannelState.CorrelationID state_U1"
      "QoSMetrics.DomainName m = ChannelState.DomainName state_U1"
    and gone: "entries s' ''U1'' = None"
    using CalculateMetrics_consumes_live_state [OF a b b' c d, of go_strconv 100 "''fs1''"] e
    by auto
  have "fst (store_Get s' ''U1'') = Inl (if backend_fails s' then ErrBackend else ErrNotFound)"
    using gone by (rule store_Get_gone)
  moreover have "outages s' = []"
    using r
    by (auto simp: CalculateMetrics_proceeds [OF a] b extractStateAndDomain_def extracted_ids
        spec_store_def store_Get_def store_Delete_def backend_fails_def operation_done_def
        store_with_U1_def Let_def split: prod.splits)
  ultimately have "fst (store_Get s' ''U1'') = Inl ErrNotFound"
    using f by simp
  with a b c d r ids gone show ?thesis
    by (simp add: state_U1_def)
qed

text \<open>
  The claim as stated fails when the backend fails the \<open>Delete\<close>: the state of
  \<open>U1\<close> is live, the metric is emitted, and a following \<open>Get\<close> still returns the state.
\<close>

theorem CalculateMetrics_delete_failure_counterexample:
  "live (store_with_U1 [False, True]) ''U1'' state_U1
   \<and> fst (snd (CalculateMetrics go_strconv spec_store 100 (store_with_U1 [False, True])
                event_scenario_A ''fs1'')) = None
   \<and> fst (store_Get
            (fst (snd (snd (CalculateMetrics go_strconv spec_store 100
                              (store_with_U1 [False, True]) event_scenario_A ''fs1''))))
            ''U1'') = Inr state_U1"
proof -
  have a: "GetHeader event_scenario_A ''variable_rtp_use_codec_rate'' \<noteq> []"
    and b: "GetHeader event_scenario_A ''Unique-ID'' \<noteq> []"
    by (simp_all add: example_headers)
  have g: "Get spec_store (store_with_U1 [False, True])
             (QoSMetrics.ChannelID (extracted go_strconv 100 event_scenario_A ''fs1'')) =
           (Inr state_U1, store_with_U1 [True])"
    by (simp add: extracted_ids example_headers spec_store_def store_Get_def backend_fails_def
        operation_done_def store_with_U1_def)
  have d: "Delete spec_store (store_with_U1 [True]) ''U1'' = (Some ErrBackend, store_with_U1 [])"
    by (simp add: spec_store_def store_Delete_def backend_fails_def operation_done_def
        store_with_U1_def)
  have l: "live (store_with_U1 [False, True]) ''U1'' state_U1"
    by (simp add: live_def store_with_U1_def)
  have r: "store_Get (store_with_U1 []) ''U1'' = (Inr state_U1, store_with_U1 [])"
    by (simp add: store_Get_def backend_fails_def operation_done_def store_with_U1_def)
  show ?thesis
    by (simp add: CalculateMetrics_proceeds [OF a b] extractStateAndDomain_found [OF g]
        extracted_ids example_headers d l r)
qed

text \<open>
  C2 (as amended). When the codec marker header \<open>variable_rtp_use_codec_rate\<close> is
  absent (or empty), \<open>CalculateMetrics\<close> produces no metric, does not touch the store
  and logs nothing; it reports the skip through its error result, a non-nil error
  with the message "variable_rtp_use_codec_rate not present, skipping QoS
  calculation".
\<close>

theorem CalculateMetrics_marker_absent:
  assumes "GetHeader event ''variable_rtp_use_codec_rate'' = []"
  shows "CalculateMetrics sc store now s event instanceName =
           (None,
            Some (Errorf ''variable_rtp_use_codec_rate not present, skipping QoS calculation''),
            s, [])"
  using assms by (simp add: CalculateMetrics_def)

theorem CalculateMetrics_marker_absent_witness:
  "GetHeader event_without_marker ''variable_rtp_use_codec_rate'' = []
   \<and> CalculateMetrics go_strconv spec_store 100 (store_with_U1 []) event_without_marker ''fs1'' =
       (None,
        Some (Errorf ''variable_rtp_use_codec_rate not present, skipping QoS calculation''),
        store_with_U1 [], [])"
proof -
  have a: "GetHeader event_without_marker ''variable_rtp_use_codec_rate'' = []"
    by (simp add: example_headers)
  show ?thesis
    using a CalculateMetrics_marker_absent [OF a] by simp
qed

text \<open>
  The claim as stated fails: for an event without the marker the error result of
  \<open>CalculateMetrics\<close> is not nil.
\<close>

theorem CalculateMetrics_skip_is_error_counterexample:
  "GetHeader event_without_marker ''variable_rtp_use_codec_rate'' = []
   \<and> fst (snd (CalculateMetrics go_strconv spec_store 100 (store_with_U1 [])
                event_without_marker ''fs1'')) \<noteq> None"
  by (simp add: example_headers CalculateMetrics_def)

text \<open>
  C8. When the codec marker header \<open>variable_rtp_use_codec_rate\<close> is present and the
  \<open>Unique-ID\<close> header is absent or empty, \<open>CalculateMetrics\<close> returns an error and no
  metric; it leaves the store as it was and logs nothing.
\<close>

theorem CalculateMetrics_missing_unique_id:
  assumes "GetHeader event ''variable_rtp_use_codec_rate'' \<noteq> []"
    and "GetHeader event ''Unique-ID'' = []"
  shows "CalculateMetrics sc store now s event instanceName =
           (None, Some (Errorf ''CHANNEL_DESTROY event missing Unique-ID''), s, [])"
  using assms by (simp add: CalculateMetrics_def)

theorem CalculateMetrics_missing_unique_id_witness:
  "GetHeader event_without_unique_id ''variable_rtp_use_codec_rate'' \<noteq> []
   \<and> GetHeader event_without_unique_id ''Unique-ID'' = []
   \<and> CalculateMetrics go_strconv spec_store 100 (store_with_U1 []) event_without_unique_id ''fs1'' =
       (None, Some (Errorf ''CHANNEL_DESTROY event missing Unique-ID''), store_with_U1 [], [])"
proof -
  have a: "GetHeader event_without_unique_id ''variable_rtp_use_codec_rate'' \<noteq> []"
    by (simp add: event_without_unique_id_def event_of_def GetHeader_def)
  have b: "GetHeader event_without_unique_id ''Unique-ID'' = []"
    by (simp add: event_without_unique_id_def event_of_def GetHeader_def)
  show ?thesis
    using a b CalculateMetrics_missing_unique_id [OF a b] by simp
qed

text \<open>
  C3. When the state lookup returns no state (whatever the error: key absent,
  entry expired, backend failure), \<open>CalculateMetrics\<close> still emits a metric; its
  CorrelationID is the first non-empty of \<open>Other-Leg-Unique-ID\<close>, \<open>Unique-ID\<close>,
  \<open>variable_sip_call_id\<close>, \<open>variable_global_call_id\<close>, and its DomainName the first
  non-empty of \<open>variable_domain_name\<close>, \<open>variable_sip_from_host\<close>,
  \<open>variable_sip_to_host\<close>, empty when there is none. In particular a non-empty
  \<open>Other-Leg-Unique-ID\<close> wins over \<open>variable_sip_call_id\<close>, and without an explicit
  domain header a non-empty \<open>variable_sip_from_host\<close> is the DomainName.
\<close>

theorem CalculateMetrics_header_fallback:
  assumes marker: "GetHeader event ''variable_rtp_use_codec_rate'' \<noteq> []"
    and uid: "GetHeader event ''Unique-ID'' \<noteq> []"
    and lost: "Get store s (GetHeader event ''Unique-ID'') = (Inl err, s1)"
  shows "\<exists>m lg. CalculateMetrics sc store now s event inst = (Some m, None, s1, lg)
           \<and> QoSMetrics.CorrelationID m =
               first_non_empty (map (GetHeader event)
                 [''Other-Leg-Unique-ID'', ''Unique-ID'', ''variable_sip_call_id'',
                  ''variable_global_call_id''])
           \<and> QoSMetrics.DomainName m =
               first_non_empty (map (GetHeader event)
                 [''variable_domain_name'', ''variable_sip_from_host'',
                  ''variable_sip_to_host''])
           \<and> (GetHeader event ''Other-Leg-Unique-ID'' \<noteq> [] \<longrightarrow>
                 QoSMetrics.CorrelationID m = GetHeader event ''Other-Leg-Unique-ID'')
           \<and> (GetHeader event ''variable_domain_name'' = []
                \<and> GetHeader event ''variable_sip_from_host'' \<noteq> [] \<longrightarrow>
                 QoSMetrics.DomainName m = GetHeader event ''variable_sip_from_host'')"
proof -
  have g: "Get store s (QoSMetrics.ChannelID (extracted sc now event inst)) = (Inl err, s1)"
    using lost by (simp add: extracted_ids)
  show ?thesis
    by (simp add: CalculateMetrics_proceeds [OF marker uid]
        extractStateAndDomain_not_found [OF g] extracted_ids)
qed

theorem CalculateMetrics_header_fallback_witness:
  "GetHeader event_fallback ''variable_rtp_use_codec_rate'' \<noteq> []
   \<and> GetHeader event_fallback ''Unique-ID'' \<noteq> []
   \<and> Get spec_store empty_store (GetHeader event_fallback ''Unique-ID'') =
        (Inl ErrNotFound, empty_store)
   \<and> GetHeader event_fallback ''Other-Leg-Unique-ID'' = ''X''
   \<and> GetHeader event_fallback ''variable_sip_call_id'' = ''Y''
   \<and> GetHeader event_fallback ''variable_domain_name'' = []
   \<and> GetHeader event_fallback ''variable_sip_from_host'' = ''a.com''
   \<and> (\<exists>m lg. CalculateMetrics go_strconv spec_store 100 empty_store event_fallback ''fs1'' =
                  (Some m, None, empty_store, lg)
          \<and> QoSMetrics.CorrelationID m = ''X'' \<and> QoSMetrics.DomainName m = ''a.com'')"
proof -
  have a: "GetHeader event_fallback ''variable_rtp_use_codec_rate'' \<noteq> []"
    and b: "GetHeader event_fallback ''Unique-ID'' \<noteq> []"
    by (simp_all add: example_headers)
  have c: "Get spec_store empty_store (GetHeader event_fallback ''Unique-ID'') =
             (Inl ErrNotFound, empty_store)"
    by (simp add: spec_store_def store_Get_def backend_fails_def operation_done_def
        empty_store_def)
  show ?thesis
    using a b c CalculateMetrics_header_fallback [OF a b c, of go_strconv 100 "''fs1''"]
    by (auto simp: example_headers)
qed

text \<open>
  The three ways the store of the spec loses a state: the key is absent, the entry
  has expired, or the backend fails the lookup.
\<close>

lemma spec_store_lookup_fails:
  assumes "entries s key = None
           \<or> (\<exists>state expiry. entries s key = Some (state, expiry) \<and> expiry \<le> clock s)
           \<or> backend_fails s"
  shows "\<exists>err s1. Get spec_store s key = (Inl err, s1)"
proof -
  have "\<exists>err. fst (store_Get s key) = Inl err"
    using assms store_Get_gone [of s key] store_Get_expired [of s key] store_Get_outage [of s key]
    by auto
  then show ?thesis
    by (cases "store_Get s key") (simp add: spec_store_def)
qed

subsection \<open>Numbers\<close>

lemma go_ParseFloat_examples:
  "ParseFloat go_strconv ''4.2'' 64 = Some 4.2"
  "ParseFloat go_strconv ''1.0'' 64 = Some 1"
  "ParseFloat go_strconv ''3.0'' 64 = Some 3"
  "ParseFloat go_strconv ''good'' 64 = None"
  by (simp_all add: go_strconv_def go_ParseFloat_def digit_of_def)

lemma go_ParseInt_examples:
  "ParseInt go_strconv ''abc'' 10 64 = None"
  "ParseInt go_strconv ''5'' 10 64 = Some 5"
  by (simp_all add: go_strconv_def go_ParseInt_def parse_signed_def parse_unsigned_def digit_of_def)

lemma CalculateMetrics_quality_fields:
  assumes "GetHeader event ''variable_rtp_use_codec_rate'' \<noteq> []"
    and "GetHeader event ''Unique-ID'' \<noteq> []"
  shows "\<exists>m s' lg. CalculateMetrics sc store now s event inst = (Some m, None, s', lg)
          \<and> QoSMetrics.ChannelID m = GetHeader event ''Unique-ID''
          \<and> MOSScore m = MOSScore (extracted sc now event inst)
          \<and> MinJitter m = MinJitter (extracted sc now event inst)
          \<and> MaxJitter m = MaxJitter (extracted sc now event inst)
          \<and> AvgJitter m = AvgJitter (extracted sc now event inst)
          \<and> Delta m = Delta (extracted sc now event inst)"
  using CalculateMetrics_metric [OF assms, of sc store now s inst]
  by (auto simp: extracted_ids)

text \<open>
  C5. For a termination event with the codec marker present, \<open>Unique-ID\<close> = U1,
  \<open>variable_rtp_audio_in_mos\<close> = 4.2, jitter min variance 1.0 and max variance 3.0
  (strconv parsing these three literals to the numbers they denote),
  \<open>CalculateMetrics\<close> emits a metric with MOSScore 4.2 and AvgJitter 2.0, the
  AvgJitter being (MinJitter + MaxJitter) / 2.
\<close>

theorem CalculateMetrics_scenario_A_quality:
  assumes marker: "GetHeader event ''variable_rtp_use_codec_rate'' \<noteq> []"
    and uid: "GetHeader event ''Unique-ID'' = ''U1''"
    and mos: "GetHeader event ''variable_rtp_audio_in_mos'' = ''4.2''"
    and jmin: "GetHeader event ''variable_rtp_audio_in_jitter_min_variance'' = ''1.0''"
    and jmax: "GetHeader event ''variable_rtp_audio_in_jitter_max_variance'' = ''3.0''"
    and parse: "ParseFloat sc ''4.2'' 64 = Some 4.2" "ParseFloat sc ''1.0'' 64 = Some 1"
      "ParseFloat sc ''3.0'' 64 = Some 3"
  shows "\<exists>m s' lg. CalculateMetrics sc store now s event inst = (Some m, None, s', lg)
          \<and> QoSMetrics.ChannelID m = ''U1''
          \<and> MOSScore m = 4.2 \<and> AvgJitter m = 2
          \<and> AvgJitter m = (MinJitter m + MaxJitter m) / 2"
proof -
  have u: "GetHeader event ''Unique-ID'' \<noteq> []" using uid by simp
  have a: "MOSScore (snd (extractQualityMetrics sc event m0)) = 4.2" for m0
    by (simp add: extractQualityMetrics_values mos parse)
  have b: "MinJitter (snd (extractQualityMetrics sc event m0)) = 1" for m0
    by (simp add: extractQualityMetrics_values jmin parse)
  have c: "MaxJitter (snd (extractQualityMetrics sc event m0)) = 3" for m0
    by (simp add: extractQualityMetrics_values jmax parse)
  have d: "AvgJitter (snd (extractQualityMetrics sc event m0)) = 2" for m0
    by (simp add: extractQualityMetrics_values(5) b c)
  show ?thesis
    using CalculateMetrics_quality_fields [OF marker u, of sc store now s inst]
    by (auto simp: extracted_quality a b c d uid)
qed

theorem CalculateMetrics_scenario_A_quality_witness:
  "GetHeader event_scenario_A ''variable_rtp_use_codec_rate'' \<noteq> []
   \<and> GetHeader event_scenario_A ''Unique-ID'' = ''U1''
   \<and> GetHeader event_scenario_A ''variable_rtp_audio_in_mos'' = ''4.2''
   \<and> GetHeader event_scenario_A ''variable_rtp_audio_in_jitter_min_variance'' = ''1.0''
   \<and> GetHeader event_scenario_A ''variable_rtp_audio_in_jitter_max_variance'' = ''3.0''
   \<and> ParseFloat go_strconv ''4.2'' 64 = Some 4.2
   \<and> ParseFloat go_strconv ''1.0'' 64 = Some 1
   \<and> ParseFloat go_strconv ''3.0'' 64 = Some 3
   \<and> (\<exists>m s' lg. CalculateMetrics go_strconv spec_store 100 (store_with_U1 [])
                     event_scenario_A ''fs1'' = (Some m, None, s', lg)
          \<and> QoSMetrics.ChannelID m = ''U1''
          \<and> MOSScore m = 4.2 \<and> AvgJitter m = 2
          \<and> AvgJitter m = (MinJitter m + MaxJitter m) / 2)"
proof -
  have a: "GetHeader event_scenario_A ''variable_rtp_use_codec_rate'' \<noteq> []"
    by (simp add: example_headers)
  note h = example_headers(2,3,4,5)
  note p = go_ParseFloat_examples(1,2,3)
  show ?thesis
    using a h p
      CalculateMetrics_scenario_A_quality [OF a h p, of spec_store 100 "store_with_U1 []" "''fs1''"]
    by simp
qed

subsection \<open>Headers that do not parse\<close>

lemma extracted_codec:
  "CodecPT (extracted sc now event inst) =
     (if GetHeader event ''variable_rtp_use_codec_pt'' \<noteq> [] then
        (case Atoi sc (GetHeader event ''variable_rtp_use_codec_pt'') of
           None \<Rightarrow> 0 | Some v \<Rightarrow> v)
      else 0)"
  "PTime (extracted sc now event inst) =
     (if GetHeader event ''variable_rtp_use_codec_ptime'' \<noteq> [] then
        (case Atoi sc (GetHeader event ''variable_rtp_use_codec_ptime'') of
           None \<Rightarrow> 0 | Some v \<Rightarrow> v)
      else 0)"
  "ClockRate (extracted sc now event inst) =
     (if GetHeader event ''variable_rtp_use_codec_rate'' \<noteq> [] then
        (case Atoi sc (GetHeader event ''variable_rtp_use_codec_rate'') of
           None \<Rightarrow> 0 | Some v \<Rightarrow> v)
      else 0)"
  "SrcPort (extracted sc now event inst) =
     (if GetHeader event ''variable_local_media_port'' \<noteq> [] then
        (case ParseUint sc (GetHeader event ''variable_local_media_port'') 10 16 of
           None \<Rightarrow> 0 | Some v \<Rightarrow> ucast v)
      else 0)"
  "DstPort (extracted sc now event inst) =
     (if GetHeader event ''variable_remote_media_port'' \<noteq> [] then
        (case ParseUint sc (GetHeader event ''variable_remote_media_port'') 10 16 of
           None \<Rightarrow> 0 | Some v \<Rightarrow> ucast v)
      else 0)"
  "ReportTimestamp (extracted sc now event inst) =
     (if GetHeader event ''Event-Date-Timestamp'' \<noteq> [] then
        (case ParseInt sc (GetHeader event ''Event-Date-Timestamp'') 10 64 of
           None \<Rightarrow> 0 | Some v \<Rightarrow> v)
      else 0)"
  by (simp_all add: extracted_def extractCodecInfo_values extractTrafficMetrics_frame
      extractQualityMetrics_frame new_QoSMetrics_def
      cong del: if_weak_cong option.case_cong_weak)

lemma extracted_float:
  "MOSScore (extracted sc now event inst) =
     (if GetHeader event ''variable_rtp_audio_in_mos'' \<noteq> [] then
        (case ParseFloat sc (GetHeader event ''variable_rtp_audio_in_mos'') 64 of
           None \<Rightarrow> 0 | Some v \<Rightarrow> v)
      else 0)"
  "MinJitter (extracted sc now event inst) =
     (if GetHeader event ''variable_rtp_audio_in_jitter_min_variance'' \<noteq> [] then
        (case ParseFloat sc (GetHeader event ''variable_rtp_audio_in_jitter_min_variance'') 64 of
           None \<Rightarrow> 0 | Some v \<Rightarrow> v)
      else 0)"
  "MaxJitter (extracted sc now event inst) =
     (if GetHeader event ''variable_rtp_audio_in_jitter_max_variance'' \<noteq> [] then
        (case ParseFloat sc (GetHeader event ''variable_rtp_audio_in_jitter_max_variance'') 64 of
           None \<Rightarrow> 0 | Some v \<Rightarrow> v)
      else 0)"
  "Delta (extracted sc now event inst) =
     (if GetHeader event ''variable_rtp_audio_in_mean_interval'' \<noteq> [] then
        (case ParseFloat sc (GetHeader event ''variable_rtp_audio_in_mean_interval'') 64 of
           None \<Rightarrow> 0 | Some v \<Rightarrow> v)
      else 0)"
  by (simp_all add: extracted_quality extractQualityMetrics_values new_QoSMetrics_def
      cong del: if_weak_cong option.case_cong_weak)

text \<open>Every field but the two ids of the emitted metric is the one extracted.\<close>

lemma CalculateMetrics_fields:
  assumes "GetHeader event ''variable_rtp_use_codec_rate'' \<noteq> []"
    and "GetHeader event ''Unique-ID'' \<noteq> []"
  shows "\<exists>m s' lg. CalculateMetrics sc store now s event inst = (Some m, None, s', lg)
          \<and> MOSScore m = MOSScore (extracted sc now event inst)
          \<and> MinJitter m = MinJitter (extracted sc now event inst)
          \<and> MaxJitter m = MaxJitter (extracted sc now event inst)
          \<and> Delta m = Delta (extracted sc now event inst)
          \<and> TotalPackets m = TotalPackets (extracted sc now event inst)
          \<and> TotalBytes m = TotalBytes (extracted sc now event inst)
          \<and> PacketLoss m = PacketLoss (extracted sc now event inst)
          \<and> CodecPT m = CodecPT (extracted sc now event inst)
          \<and> PTime m = PTime (extracted sc now event inst)
          \<and> ClockRate m = ClockRate (extracted sc now event inst)
          \<and> SrcPort m = SrcPort (extracted sc now event inst)
          \<and> DstPort m = DstPort (extracted sc now event inst)
          \<and> ReportTimestamp m = ReportTimestamp (extracted sc now event inst)"
proof -
  obtain c d s' lg where "CalculateMetrics sc store now s event inst =
           (Some ((extracted sc now event inst)
                    \<lparr>QoSMetrics.CorrelationID := c, QoSMetrics.DomainName := d\<rparr>),
            None, s', lg)"
    using CalculateMetrics_metric [OF assms, of sc store now s inst] by (elim exE)
  then show ?thesis by simp
qed

text \<open>
  C9 (as amended). The helpers \<open>extractQualityMetrics\<close>, \<open>extractTrafficMetrics\<close> and
  \<open>extractCodecInfo\<close> always return a nil error, so a numeric header that fails to
  parse never makes \<open>CalculateMetrics\<close> fail: with the marker and a channel id it
  emits a metric. A field assigned from one header (MOSScore, MinJitter, MaxJitter,
  Delta, CodecPT, PTime, ClockRate, SrcPort, DstPort, ReportTimestamp) keeps its zero
  value when that header fails to parse; in the summed fields TotalPackets, TotalBytes
  and PacketLoss the side that fails to parse counts as zero, the field being what
  the other side gives.
\<close>

theorem unparsable_headers_never_fail:
  "fst (extractQualityMetrics sc event m0) = None
   \<and> fst (extractTrafficMetrics sc event m0) = None
   \<and> fst (extractCodecInfo sc event m0) = None
   \<and> (GetHeader event ''variable_rtp_use_codec_rate'' \<noteq> [] \<and> GetHeader event ''Unique-ID'' \<noteq> [] \<longrightarrow>
       (\<exists>m s' lg. CalculateMetrics sc store now s event inst = (Some m, None, s', lg)
          \<and> (ParseFloat sc (GetHeader event ''variable_rtp_audio_in_mos'') 64 = None
                \<longrightarrow> MOSScore m = 0)
          \<and> (ParseFloat sc (GetHeader event ''variable_rtp_audio_in_jitter_min_variance'') 64 = None
                \<longrightarrow> MinJitter m = 0)
          \<and> (ParseFloat sc (GetHeader event ''variable_rtp_audio_in_jitter_max_variance'') 64 = None
                \<longrightarrow> MaxJitter m = 0)
          \<and> (ParseFloat sc (GetHeader event ''variable_rtp_audio_in_mean_interval'') 64 = None
                \<longrightarrow> Delta m = 0)
          \<and> (Atoi sc (GetHeader event ''variable_rtp_use_codec_pt'') = None \<longrightarrow> CodecPT m = 0)
          \<and> (Atoi sc (GetHeader event ''variable_rtp_use_codec_ptime'') = None \<longrightarrow> PTime m = 0)
          \<and> (Atoi sc (GetHeader event ''variable_rtp_use_codec_rate'') = None \<longrightarrow> ClockRate m = 0)
          \<and> (ParseUint sc (GetHeader event ''variable_local_media_port'') 10 16 = None
                \<longrightarrow> SrcPort m = 0)
          \<and> (ParseUint sc (GetHeader event ''variable_remote_media_port'') 10 16 = None
                \<longrightarrow> DstPort m = 0)
          \<and> (ParseInt sc (GetHeader event ''Event-Date-Timestamp'') 10 64 = None
                \<longrightarrow> ReportTimestamp m = 0)
          \<and> (ParseInt sc (GetHeader event ''variable_rtp_audio_in_packet_count'') 10 64 = None
                \<longrightarrow> TotalPackets m = parsed_int64 sc event ''variable_rtp_audio_out_packet_count'')
          \<and> (ParseInt sc (GetHeader event ''variable_rtp_audio_out_packet_count'') 10 64 = None
                \<longrightarrow> TotalPackets m = parsed_int64 sc event ''variable_rtp_audio_in_packet_count'')
          \<and> (ParseInt sc (GetHeader event ''variable_rtp_audio_in_media_bytes'') 10 64 = None
                \<longrightarrow> TotalBytes m = parsed_int64 sc event ''variable_rtp_audio_out_media_bytes'')
          \<and> (ParseInt sc (GetHeader event ''variable_rtp_audio_out_media_bytes'') 10 64 = None
                \<longrightarrow> TotalBytes m = parsed_int64 sc event ''variable_rtp_audio_in_media_bytes'')
          \<and> (ParseInt sc (GetHeader event ''variable_rtp_audio_in_skip_packet_count'') 10 64 = None
                \<longrightarrow> PacketLoss m = parsed_int64 sc event ''variable_rtp_audio_out_skip_packet_count'')
          \<and> (ParseInt sc (GetHeader event ''variable_rtp_audio_out_skip_packet_count'') 10 64 = None
                \<longrightarrow> PacketLoss m = parsed_int64 sc event ''variable_rtp_audio_in_skip_packet_count'')))"
proof (intro conjI impI)
  show "fst (extractQualityMetrics sc event m0) = None" by (rule extractQualityMetrics_nil)
  show "fst (extractTrafficMetrics sc event m0) = None" by (rule extractTrafficMetrics_nil)
  show "fst (extractCodecInfo sc event m0) = None" by (rule extractCodecInfo_nil)
next
  assume a: "GetHeader event ''variable_rtp_use_codec_rate'' \<noteq> [] \<and> GetHeader event ''Unique-ID'' \<noteq> []"
  obtain m s' lg where r: "CalculateMetrics sc store now s event inst = (Some m, None, s', lg)"
    and f: "MOSScore m = MOSScore (extracted sc now event inst)"
      "MinJitter m = MinJitter (extracted sc now event inst)"
      "MaxJitter m = MaxJitter (extracted sc now event inst)"
      "Delta m = Delta (extracted sc now event inst)"
    and t: "TotalPackets m = TotalPackets (extracted sc now event inst)"
      "TotalBytes m = TotalBytes (extracted sc now event inst)"
      "PacketLoss m = PacketLoss (extracted sc now event inst)"
    and c: "CodecPT m = CodecPT (extracted sc now event inst)"
      "PTime m = PTime (extracted sc now event inst)"
      "ClockRate m = ClockRate (extracted sc now event inst)"
      "SrcPort m = SrcPort (extracted sc now event inst)"
      "DstPort m = DstPort (extracted sc now event inst)"
      "ReportTimestamp m = ReportTimestamp (extracted sc now event inst)"
    using CalculateMetrics_fields [of event sc store now s inst] a by blast
  have "ParseFloat sc (GetHeader event ''variable_rtp_audio_in_mos'') 64 = None \<longrightarrow> MOSScore m = 0"
    by (simp add: f extracted_float)
  moreover have "ParseFloat sc (GetHeader event ''variable_rtp_audio_in_jitter_min_variance'') 64 = None
      \<longrightarrow> MinJitter m = 0"
    by (simp add: f extracted_float)
  moreover have "ParseFloat sc (GetHeader event ''variable_rtp_audio_in_jitter_max_variance'') 64 = None
      \<longrightarrow> MaxJitter m = 0"
    by (simp add: f extracted_float)
  moreover have "ParseFloat sc (GetHeader event ''variable_rtp_audio_in_mean_interval'') 64 = None
      \<longrightarrow> Delta m = 0"
    by (simp add: f extracted_float)
  moreover have "Atoi sc (GetHeader event ''variable_rtp_use_codec_pt'') = None \<longrightarrow> CodecPT m = 0"
    by (simp add: c extracted_codec)
  moreover have "Atoi sc (GetHeader event ''variable_rtp_use_codec_ptime'') = None \<longrightarrow> PTime m = 0"
    by (simp add: c extracted_codec)
  moreover have "Atoi sc (GetHeader event ''variable_rtp_use_codec_rate'') = None \<longrightarrow> ClockRate m = 0"
    by (simp add: c extracted_codec)
  moreover have "ParseUint sc (GetHeader event ''variable_local_media_port'') 10 16 = None
      \<longrightarrow> SrcPort m = 0"
    by (simp add: c extracted_codec)
  moreover have "ParseUint sc (GetHeader event ''variable_remote_media_port'') 10 16 = None
      \<longrightarrow> DstPort m = 0"
    by (simp add: c extracted_codec)
  moreover have "ParseInt sc (GetHeader event ''Event-Date-Timestamp'') 10 64 = None
      \<longrightarrow> ReportTimestamp m = 0"
    by (simp add: c extracted_codec)
  moreover have "ParseInt sc (GetHeader event ''variable_rtp_audio_in_packet_count'') 10 64 = None
      \<longrightarrow> TotalPackets m = parsed_int64 sc event ''variable_rtp_audio_out_packet_count''"
    by (simp add: t extracted_traffic parsed_int64_unparsable)
  moreover have "ParseInt sc (GetHeader event ''variable_rtp_audio_out_packet_count'') 10 64 = None
      \<longrightarrow> TotalPackets m = parsed_int64 sc event ''variable_rtp_audio_in_packet_count''"
    by (simp add: t extracted_traffic parsed_int64_unparsable)
  moreover have "ParseInt sc (GetHeader event ''variable_rtp_audio_in_media_bytes'') 10 64 = None
      \<longrightarrow> TotalBytes m = parsed_int64 sc event ''variable_rtp_audio_out_media_bytes''"
    by (simp add: t extracted_traffic parsed_int64_unparsable)
  moreover have "ParseInt sc (GetHeader event ''variable_rtp_audio_out_media_bytes'') 10 64 = None
      \<longrightarrow> TotalBytes m = parsed_int64 sc event ''variable_rtp_audio_in_media_bytes''"
    by (simp add: t extracted_traffic parsed_int64_unparsable)
  moreover have "ParseInt sc (GetHeader event ''variable_rtp_audio_in_skip_packet_count'') 10 64 = None
      \<longrightarrow> PacketLoss m = parsed_int64 sc event ''variable_rtp_audio_out_skip_packet_count''"
    by (simp add: t extracted_traffic parsed_int64_unparsable)
  moreover have "ParseInt sc (GetHeader event ''variable_rtp_audio_out_skip_packet_count'') 10 64 = None
      \<longrightarrow> PacketLoss m = parsed_int64 sc event ''variable_rtp_audio_in_skip_packet_count''"
    by (simp add: t extracted_traffic parsed_int64_unparsable)
  ultimately show "\<exists>m s' lg. CalculateMetrics sc store now s event inst = (Some m, None, s', lg)
          \<and> (ParseFloat sc (GetHeader event ''variable_rtp_audio_in_mos'') 64 = None
                \<longrightarrow> MOSScore m = 0)
          \<and> (ParseFloat sc (GetHeader event ''variable_rtp_audio_in_jitter_min_variance'') 64 = None
                \<longrightarrow> MinJitter m = 0)
          \<and> (ParseFloat sc (GetHeader event ''variable_rtp_audio_in_jitter_max_variance'') 64 = None
                \<longrightarrow> MaxJitter m = 0)
          \<and> (ParseFloat sc (GetHeader event ''variable_rtp_audio_in_mean_interval'') 64 = None
                \<longrightarrow> Delta m = 0)
          \<and> (Atoi sc (GetHeader event ''variable_rtp_use_codec_pt'') = None \<longrightarrow> CodecPT m = 0)
          \<and> (Atoi sc (GetHeader event ''variable_rtp_use_codec_ptime'') = None \<longrightarrow> PTime m = 0)
          \<and> (Atoi sc (GetHeader event ''variable_rtp_use_codec_rate'') = None \<longrightarrow> ClockRate m = 0)
          \<and> (ParseUint sc (GetHeader event ''variable_local_media_port'') 10 16 = None
                \<longrightarrow> SrcPort m = 0)
          \<and> (ParseUint sc (GetHeader event ''variable_remote_media_port'') 10 16 = None
                \<longrightarrow> DstPort m = 0)
          \<and> (ParseInt sc (GetHeader event ''Event-Date-Timestamp'') 10 64 = None
                \<longrightarrow> ReportTimestamp m = 0)
          \<and> (ParseInt sc (GetHeader event ''variable_rtp_audio_in_packet_count'') 10 64 = None
                \<longrightarrow> TotalPackets m = parsed_int64 sc event ''variable_rtp_audio_out_packet_count'')
          \<and> (ParseInt sc (GetHeader event ''variable_rtp_audio_out_packet_count'') 10 64 = None
                \<longrightarrow> TotalPackets m = parsed_int64 sc event ''variable_rtp_audio_in_packet_count'')
          \<and> (ParseInt sc (GetHeader event ''variable_rtp_audio_in_media_bytes'') 10 64 = None
                \<longrightarrow> TotalBytes m = parsed_int64 sc event ''variable_rtp_audio_out_media_bytes'')
          \<and> (ParseInt sc (GetHeader event ''variable_rtp_audio_out_media_bytes'') 10 64 = None
                \<longrightarrow> TotalBytes m = parsed_int64 sc event ''variable_rtp_audio_in_media_bytes'')
          \<and> (ParseInt sc (GetHeader event ''variable_rtp_audio_in_skip_packet_count'') 10 64 = None
                \<longrightarrow> PacketLoss m = parsed_int64 sc event ''variable_rtp_audio_out_skip_packet_count'')
          \<and> (ParseInt sc (GetHeader event ''variable_rtp_audio_out_skip_packet_count'') 10 64 = None
                \<longrightarrow> PacketLoss m = parsed_int64 sc event ''variable_rtp_audio_in_skip_packet_count'')"
    using r by simp
qed

lemma event_all_unparsable_parses:
  "ParseFloat go_strconv (GetHeader event_all_unparsable ''variable_rtp_audio_in_mos'') 64 = None"
  "ParseFloat go_strconv (GetHeader event_all_unparsable ''variable_rtp_audio_in_jitter_min_variance'') 64 = None"
  "ParseFloat go_strconv (GetHeader event_all_unparsable ''variable_rtp_audio_in_jitter_max_variance'') 64 = None"
  "ParseFloat go_strconv (GetHeader event_all_unparsable ''variable_rtp_audio_in_mean_interval'') 64 = None"
  "Atoi go_strconv (GetHeader event_all_unparsable ''variable_rtp_use_codec_pt'') = None"
  "Atoi go_strconv (GetHeader event_all_unparsable ''variable_rtp_use_codec_ptime'') = None"
  "Atoi go_strconv (GetHeader event_all_unparsable ''variable_rtp_use_codec_rate'') = None"
  "ParseUint go_strconv (GetHeader event_all_unparsable ''variable_local_media_port'') 10 16 = None"
  "ParseUint go_strconv (GetHeader event_all_unparsable ''variable_remote_media_port'') 10 16 = None"
  "ParseInt go_strconv (GetHeader event_all_unparsable ''Event-Date-Timestamp'') 10 64 = None"
  "ParseInt go_strconv (GetHeader event_all_unparsable ''variable_rtp_audio_in_packet_count'') 10 64 = None"
  "ParseInt go_strconv (GetHeader event_all_unparsable ''variable_rtp_audio_out_packet_count'') 10 64 = None"
  "ParseInt go_strconv (GetHeader event_all_unparsable ''variable_rtp_audio_in_media_bytes'') 10 64 = None"
  "ParseInt go_strconv (GetHeader event_all_unparsable ''variable_rtp_audio_out_media_bytes'') 10 64 = None"
  "ParseInt go_strconv (GetHeader event_all_unparsable ''variable_rtp_audio_in_skip_packet_count'') 10 64 = None"
  "ParseInt go_strconv (GetHeader event_all_unparsable ''variable_rtp_audio_out_skip_packet_count'') 10 64 = None"
  by (simp_all add: event_all_unparsable_def event_of_def GetHeader_def go_strconv_def
      go_ParseFloat_def go_ParseInt_def go_ParseUint_def go_Atoi_def parse_signed_def
      parse_unsigned_def digit_of_def)

lemma event_all_unparsable_headers:
  "GetHeader event_all_unparsable ''variable_rtp_use_codec_rate'' \<noteq> []"
  "GetHeader event_all_unparsable ''Unique-ID'' \<noteq> []"
  "GetHeader event_all_unparsable ''variable_rtp_audio_out_packet_count'' = []"
  "GetHeader event_all_unparsable ''variable_rtp_audio_out_media_bytes'' = []"
  "GetHeader event_all_unparsable ''variable_rtp_audio_out_skip_packet_count'' = []"
  by (simp_all add: event_all_unparsable_def event_of_def GetHeader_def)

theorem unparsable_headers_never_fail_witness:
  "GetHeader event_all_unparsable ''variable_rtp_use_codec_rate'' \<noteq> []
   \<and> GetHeader event_all_unparsable ''Unique-ID'' \<noteq> []
   \<and> ParseFloat go_strconv (GetHeader event_all_unparsable ''variable_rtp_audio_in_mos'') 64 = None
   \<and> ParseFloat go_strconv (GetHeader event_all_unparsable ''variable_rtp_audio_in_jitter_min_variance'') 64 = None
   \<and> ParseFloat go_strconv (GetHeader event_all_unparsable ''variable_rtp_audio_in_jitter_max_variance'') 64 = None
   \<and> ParseFloat go_strconv (GetHeader event_all_unparsable ''variable_rtp_audio_in_mean_interval'') 64 = None
   \<and> Atoi go_strconv (GetHeader event_all_unparsable ''variable_rtp_use_codec_pt'') = None
   \<and> Atoi go_strconv (GetHeader event_all_unparsable ''variable_rtp_use_codec_ptime'') = None
   \<and> Atoi go_strconv (GetHeader event_all_unparsable ''variable_rtp_use_codec_rate'') = None
   \<and> ParseUint go_strconv (GetHeader event_all_unparsable ''variable_local_media_port'') 10 16 = None
   \<and> ParseUint go_strconv (GetHeader event_all_unparsable ''variable_remote_media_port'') 10 16 = None
   \<and> ParseInt go_strconv (GetHeader event_all_unparsable ''Event-Date-Timestamp'') 10 64 = None
   \<and> ParseInt go_strconv (GetHeader event_all_unparsable ''variable_rtp_audio_in_packet_count'') 10 64 = None
   \<and> ParseInt go_strconv (GetHeader event_all_unparsable ''variable_rtp_audio_out_packet_count'') 10 64 = None
   \<and> ParseInt go_strconv (GetHeader event_all_unparsable ''variable_rtp_audio_in_media_bytes'') 10 64 = None
   \<and> ParseInt go_strconv (GetHeader event_all_unparsable ''variable_rtp_audio_out_media_bytes'') 10 64 = None
   \<and> ParseInt go_strconv (GetHeader event_all_unparsable ''variable_rtp_audio_in_skip_packet_count'') 10 64 = None
   \<and> ParseInt go_strconv (GetHeader event_all_unparsable ''variable_rtp_audio_out_skip_packet_count'') 10 64 = None
   \<and> (\<exists>m s' lg. CalculateMetrics go_strconv spec_store 100 empty_store
                     event_all_unparsable ''fs1'' = (Some m, None, s', lg)
          \<and> MOSScore m = 0 \<and> MinJitter m = 0 \<and> MaxJitter m = 0 \<and> Delta m = 0
          \<and> CodecPT m = 0 \<and> PTime m = 0 \<and> ClockRate m = 0
          \<and> SrcPort m = 0 \<and> DstPort m = 0 \<and> ReportTimestamp m = 0
          \<and> TotalPackets m = 0 \<and> TotalBytes m = 0 \<and> PacketLoss m = 0)"
proof -
  note h = event_all_unparsable_headers
  note p = event_all_unparsable_parses
  have z: "parsed_int64 go_strconv event_all_unparsable
             ''variable_rtp_audio_out_packet_count'' = 0"
    "parsed_int64 go_strconv event_all_unparsable
             ''variable_rtp_audio_out_media_bytes'' = 0"
    "parsed_int64 go_strconv event_all_unparsable
             ''variable_rtp_audio_out_skip_packet_count'' = 0"
    by (simp_all add: parsed_int64_absent h)
  have "\<exists>m s' lg. CalculateMetrics go_strconv spec_store 100 empty_store
                     event_all_unparsable ''fs1'' = (Some m, None, s', lg)
          \<and> MOSScore m = 0 \<and> MinJitter m = 0 \<and> MaxJitter m = 0 \<and> Delta m = 0
          \<and> CodecPT m = 0 \<and> PTime m = 0 \<and> ClockRate m = 0
          \<and> SrcPort m = 0 \<and> DstPort m = 0 \<and> ReportTimestamp m = 0
          \<and> TotalPackets m = 0 \<and> TotalBytes m = 0 \<and> PacketLoss m = 0"
    using unparsable_headers_never_fail
            [of go_strconv event_all_unparsable "new_QoSMetrics 100 ''fs1'' ''U1''"
                spec_store 100 empty_store "''fs1''"]
    by (auto simp: h p z)
  then show ?thesis
    using h(1,2) p by simp
qed

text \<open>
  The claim as stated fails for a summed field: the inbound packet count does not
  parse, and TotalPackets is the outbound count, not zero.
\<close>

theorem unparsable_packet_count_counterexample:
  "ParseInt go_strconv (GetHeader event_unparsable ''variable_rtp_audio_in_packet_count'') 10 64
     = None
   \<and> map_option TotalPackets
        (fst (CalculateMetrics go_strconv spec_store 100 empty_store event_unparsable ''fs1''))
     = Some 5"
proof -
  have a: "GetHeader event_unparsable ''variable_rtp_use_codec_rate'' \<noteq> []"
    and b: "GetHeader event_unparsable ''Unique-ID'' \<noteq> []"
    and i: "GetHeader event_unparsable ''variable_rtp_audio_in_packet_count'' = ''abc''"
    and out: "GetHeader event_unparsable ''variable_rtp_audio_out_packet_count'' = ''5''"
    by (simp_all add: event_unparsable_def event_of_def GetHeader_def)
  have t: "TotalPackets (extracted go_strconv 100 event_unparsable ''fs1'') = 5"
    by (simp add: extracted_traffic parsed_int64_def i out go_ParseInt_examples)
  obtain c d s' lg where
    "CalculateMetrics go_strconv spec_store 100 empty_store event_unparsable ''fs1'' =
       (Some ((extracted go_strconv 100 event_unparsable ''fs1'')
                \<lparr>QoSMetrics.CorrelationID := c, QoSMetrics.DomainName := d\<rparr>),
        None, s', lg)"
    using CalculateMetrics_metric [OF a b, of go_strconv spec_store 100 empty_store "''fs1''"]
    by (elim exE)
  then show ?thesis
    by (simp add: t i go_ParseInt_examples)
qed

section \<open>Properties of the internal metrics\<close>

subsection \<open>The two cases of an increment\<close>

lemma sint_succ:
  fixes v :: "64 word"
  assumes "sint v < 2 ^ 63 - 1"
  shows "sint (v + 1) = sint v + 1"
proof -
  have "- (2 ^ 63) \<le> sint v" using sint_ge [of v] by simp
  then have "signed_take_bit 63 (sint v + 1) = sint v + 1"
    using assms by (intro signed_take_bit_int_eq_self) simp_all
  then show ?thesis by (simp add: sint_word_ariths)
qed

lemma table_ok_Made:
  assumes "table_ok table"
  shows "\<exists>t. table = Made t \<and> (\<forall>k1. t k1 \<noteq> Some Nil_map)
           \<and> (\<forall>k1 u k2. t k1 = Some (Made u) \<longrightarrow> u k2 \<noteq> Some None)"
proof (cases table)
  case Nil_map
  with assms show ?thesis by (simp add: table_ok_def)
next
  case (Made t)
  have "t k1 \<noteq> Some Nil_map" for k1
    using assms Made by (auto simp: table_ok_def)
  moreover have "u k2 \<noteq> Some None" if "t k1 = Some (Made u)" for k1 u k2
    using assms Made that unfolding table_ok_def
    by (metis lookup.simps(2))
  ultimately show ?thesis using Made by blast
qed

lemma index2_Made_Some:
  assumes "index2 (Made t) i e = Some a"
  obtains u where "t i = Some (Made u)" and "u e = Some (Some a)"
proof -
  obtain inner where i: "t i = Some inner" and x: "index1 inner e = Some a"
    using assms by (auto simp: index2_def index1_def split: option.splits)
  obtain u where u: "inner = Made u"
    using x by (cases inner) (simp_all add: index1_def)
  have "u e = Some (Some a)"
    using x u by (simp add: index1_def split: option.splits)
  with i u that show ?thesis by simp
qed

lemma IncrementEventsReceived_existing:
  assumes "registries p r = Some m" and "table_ok (eventsReceived m)"
    and "index2 (eventsReceived m) i e = Some a" and "counters p a = Some v"
  shows "IncrementEventsReceived (Some r) i e p =
           Some (p\<lparr>registries := (registries p)(r \<mapsto> m), counters := (counters p)(a \<mapsto> v + 1)\<rparr>)"
proof -
  obtain t where t: "eventsReceived m = Made t"
    using table_ok_Made [OF assms(2)] by blast
  obtain u where ti: "t i = Some (Made u)" and ue: "u e = Some (Some a)"
    using assms(3) unfolding t by (rule index2_Made_Some)
  have same: "t(i \<mapsto> Made u) = t"
    using ti by (simp add: map_upd_triv)
  have m: "m\<lparr>eventsReceived := Made t\<rparr> = m"
    using t by simp
  have ix: "index2 (Made t) i e = Some a"
    using assms(3) t by simp
  show ?thesis
    using assms(1,4) ti ue
    by (simp add: IncrementEventsReceived_def t same m ix atomic_AddInt64_def)
qed

lemma IncrementEventsReceived_new:
  assumes "registries p r = Some m" and "table_ok (eventsReceived m)"
    and "index2 (eventsReceived m) i e = None"
  shows "IncrementEventsReceived (Some r) i e p =
           Some (p\<lparr>registries := (registries p)(r \<mapsto>
                      m\<lparr>eventsReceived := with_counter (eventsReceived m) i e (next_counter p)\<rparr>),
                    counters := (counters p)(next_counter p \<mapsto> 1),
                    next_counter := Suc (next_counter p)\<rparr>)"
proof -
  obtain t where t: "eventsReceived m = Made t"
    and nn: "\<And>k1. t k1 \<noteq> Some Nil_map"
    and np: "\<And>k1 u k2. t k1 = Some (Made u) \<Longrightarrow> u k2 \<noteq> Some None"
    using table_ok_Made [OF assms(2)] by blast
  show ?thesis
  proof (cases "t i")
    case None
    then show ?thesis
      using assms(1)
      by (simp add: IncrementEventsReceived_def t new_int64_def with_counter_def index2_def
          index1_def atomic_AddInt64_def)
  next
    case (Some inner)
    then obtain u where u: "inner = Made u"
      using nn [of i] by (cases inner) simp_all
    have "u e \<noteq> Some None" using np [of i u e] Some u by simp
    moreover have "index1 (Made u) e = None"
      using assms(3) Some u by (simp add: t index2_def)
    ultimately have ue: "u e = None"
      by (simp add: index1_def split: option.splits)
    show ?thesis
      using assms(1) Some u ue
      by (simp add: IncrementEventsReceived_def t new_int64_def with_counter_def index2_def
          index1_def atomic_AddInt64_def)
  qed
qed

lemma index2_with_counter:
  assumes "table_ok table" and "index2 table i e = None"
  shows "index2 (with_counter table i e a) k1 k2 =
           (if k1 = i \<and> k2 = e then Some a else index2 table k1 k2)"
proof -
  obtain t where t: "table = Made t"
    and nn: "\<And>k1. t k1 \<noteq> Some Nil_map"
    using table_ok_Made [OF assms(1)] by blast
  show ?thesis
  proof (cases "t i")
    case None
    then show ?thesis
      by (simp add: t with_counter_def index2_def index1_def)
  next
    case (Some inner)
    then obtain u where u: "inner = Made u"
      using nn [of i] by (cases inner) simp_all
    show ?thesis
      using Some u by (simp add: t with_counter_def index2_def index1_def)
  qed
qed

lemma table_ok_with_counter:
  assumes "table_ok table"
  shows "table_ok (with_counter table i e a)"
proof -
  obtain t where t: "table = Made t"
    and nn: "\<And>k1. t k1 \<noteq> Some Nil_map"
    and np: "\<And>k1 u k2. t k1 = Some (Made u) \<Longrightarrow> u k2 \<noteq> Some None"
    using table_ok_Made [OF assms] by blast
  have np': "lookup inner k2 \<noteq> Some None" if "t k1 = Some inner" for k1 inner k2
    using that np [of k1 _ k2] by (cases inner) auto
  show ?thesis
    unfolding table_ok_def t with_counter_def
    using nn np np'
    by (auto split: option.splits go_map.splits if_splits)
qed

lemma counter_ptr_new:
  assumes "table_ok (eventsReceived m)" and "index2 (eventsReceived m) i e = None"
  shows "counter_ptr (m\<lparr>eventsReceived := with_counter (eventsReceived m) i e a\<rparr>) c =
         (if c = EventsReceived i e then Some a else counter_ptr m c)"
  using index2_with_counter [OF assms, of a]
  by (cases c) auto

text \<open>
  On a well-formed registry the call returns; the counter named by the pair is the
  old value plus one (one, if it did not exist), every counter under another name
  is as it was, and the registry is well formed again.
\<close>

lemma IncrementEventsReceived_effect:
  assumes ok: "registry_ok p r"
  shows "\<exists>p'. IncrementEventsReceived (Some r) i e p = Some p'
           \<and> counter_value p' r (EventsReceived i e) =
               Some ((case counter_value p r (EventsReceived i e) of
                        None \<Rightarrow> 0 | Some v \<Rightarrow> v) + 1)
           \<and> (\<forall>c. c \<noteq> EventsReceived i e \<longrightarrow> counter_value p' r c = counter_value p r c)
           \<and> registry_ok p' r"
proof -
  obtain m where m: "registries p r = Some m"
    and tab: "table_ok (eventsReceived m)"
    and alloc: "\<And>c a. counter_ptr m c = Some a \<Longrightarrow> a < next_counter p \<and> counters p a \<noteq> None"
    and inj: "\<And>c c' a. counter_ptr m c = Some a \<Longrightarrow> counter_ptr m c' = Some a \<Longrightarrow> c = c'"
    using ok unfolding registry_ok_def by blast
  show ?thesis
  proof (cases "index2 (eventsReceived m) i e")
    case None
    let ?a = "next_counter p"
    let ?m' = "m\<lparr>eventsReceived := with_counter (eventsReceived m) i e ?a\<rparr>"
    let ?p' = "p\<lparr>registries := (registries p)(r \<mapsto> ?m'),
                  counters := (counters p)(?a \<mapsto> 1),
                  next_counter := Suc ?a\<rparr>"
    have run: "IncrementEventsReceived (Some r) i e p = Some ?p'"
      using m tab None by (rule IncrementEventsReceived_new)
    have ptr: "counter_ptr ?m' c = (if c = EventsReceived i e then Some ?a else counter_ptr m c)"
      for c using tab None by (rule counter_ptr_new)
    have old: "counter_value p r (EventsReceived i e) = None"
      using m None by (simp add: counter_value_def)
    have new: "counter_value ?p' r (EventsReceived i e) = Some 1"
      by (simp add: counter_value_def ptr del: counter_ptr.simps)
    have frame: "counter_value ?p' r c = counter_value p r c" if "c \<noteq> EventsReceived i e" for c
    proof (cases "counter_ptr m c")
      case None
      then show ?thesis using that m by (simp add: counter_value_def ptr)
    next
      case (Some a)
      then have "a \<noteq> ?a" using alloc [of c a] by simp
      then show ?thesis using that m Some by (simp add: counter_value_def ptr)
    qed
    have ok': "registry_ok ?p' r"
      unfolding registry_ok_def
    proof (intro exI [of _ ?m'] conjI allI impI)
      show "registries ?p' r = Some ?m'" by simp
    next
      show "table_ok (eventsReceived ?m')"
        using tab by (simp add: table_ok_with_counter)
    next
      fix c a assume "counter_ptr ?m' c = Some a"
      then show "a < next_counter ?p'" and "counters ?p' a \<noteq> None"
        using alloc [of c a] by (auto simp: ptr split: if_splits)
    next
      fix c c' a assume "counter_ptr ?m' c = Some a \<and> counter_ptr ?m' c' = Some a"
      then show "c = c'"
        using alloc [of c a] alloc [of c' a] inj [of c a c']
        by (auto simp: ptr split: if_splits)
    qed
    show ?thesis
      using run old new frame ok' by simp
  next
    case (Some a)
    then have pa: "counter_ptr m (EventsReceived i e) = Some a" by simp
    obtain v where v: "counters p a = Some v"
      using alloc [OF pa] by blast
    let ?p' = "p\<lparr>registries := (registries p)(r \<mapsto> m), counters := (counters p)(a \<mapsto> v + 1)\<rparr>"
    have run: "IncrementEventsReceived (Some r) i e p = Some ?p'"
      using m tab Some v by (rule IncrementEventsReceived_existing)
    have old: "counter_value p r (EventsReceived i e) = Some v"
      using m pa v by (simp add: counter_value_def)
    have new: "counter_value ?p' r (EventsReceived i e) = Some (v + 1)"
      using pa by (simp add: counter_value_def)
    have frame: "counter_value ?p' r c = counter_value p r c" if "c \<noteq> EventsReceived i e" for c
    proof (cases "counter_ptr m c")
      case None
      then show ?thesis using m by (simp add: counter_value_def)
    next
      case (Some a')
      then have "a' \<noteq> a" using inj [of c a' "EventsReceived i e"] pa that by auto
      then show ?thesis using m Some by (simp add: counter_value_def)
    qed
    have ok': "registry_ok ?p' r"
      unfolding registry_ok_def
    proof (intro exI [of _ m] conjI allI impI)
      show "registries ?p' r = Some m" by simp
    next
      show "table_ok (eventsReceived m)" by (rule tab)
    next
      fix c a' assume "counter_ptr m c = Some a'"
      then show "a' < next_counter ?p'" and "counters ?p' a' \<noteq> None"
        using alloc [of c a'] by auto
    next
      fix c c' a' assume "counter_ptr m c = Some a' \<and> counter_ptr m c' = Some a'"
      then show "c = c'" using inj [of c a' c'] by simp
    qed
    show ?thesis
      using run old new frame ok' by simp
  qed
qed

subsection \<open>Calls from the start of the process\<close>

text \<open>
  A call on a registry whose table is nil panics. A call that returns keeps the
  package variables and the set of registries. Every registry a program can hold
  is well formed: from the start of the process, after any calls, the only registry
  is the one \<open>GetMetrics\<close> hands out, and its pointers are allocated and distinct.
\<close>

lemma IncrementEventsReceived_nil_table:
  assumes "registries p r = Some m" and "eventsReceived m = Nil_map"
  shows "IncrementEventsReceived (Some r) i e p = None"
  using assms by (simp add: IncrementEventsReceived_def)

lemma IncrementEventsReceived_registries:
  assumes "IncrementEventsReceived this i e p = Some p'"
  shows "\<exists>r. this = Some r \<and> registries p r \<noteq> None
           \<and> (\<forall>r'. (registries p' r' = None) = (registries p r' = None))"
    and "once p' = once p" and "globalMetrics p' = globalMetrics p"
    and "next_registry p' = next_registry p"
  using assms
  by (auto simp: IncrementEventsReceived_def atomic_AddInt64_def new_int64_def Let_def
      split: option.splits prod.splits if_splits)

lemma calls_after_once:
  assumes "calls p q" and "once p"
  shows "once q \<and> globalMetrics q = globalMetrics p \<and> next_registry q = next_registry p
         \<and> (\<forall>a. (registries q a = None) = (registries p a = None))"
  using assms
proof (induction rule: calls.induct)
  case (no_call p)
  then show ?case by simp
next
  case (get_metrics p q)
  then show ?case by (simp add: GetMetrics_def)
next
  case (increment p q this inst eventType q')
  then show ?case
    using IncrementEventsReceived_registries [OF increment.hyps(2)] by auto
qed

lemma calls_from_start:
  assumes "calls p q" and "p = initial_process"
  shows "if once q then globalMetrics q = Some 0 \<and> next_registry q = 1
         else next_registry q = 0"
  using assms
proof (induction rule: calls.induct)
  case (no_call p)
  then show ?case by (simp add: initial_process_def)
next
  case (get_metrics p q)
  then show ?case by (auto simp: GetMetrics_def Let_def split: if_splits)
next
  case (increment p q this inst eventType q')
  then show ?case
    using IncrementEventsReceived_registries(2-4) [OF increment.hyps(2)] by simp
qed

lemma registry_ok_new:
  assumes "registries p r = Some new_InternalMetrics"
  shows "registry_ok p r"
proof -
  have "counter_ptr new_InternalMetrics c = None" for c
    by (cases c) (simp_all add: new_InternalMetrics_def index2_def index1_def)
  moreover have "table_ok (eventsReceived new_InternalMetrics)"
    by (simp add: table_ok_def new_InternalMetrics_def)
  ultimately show ?thesis
    using assms by (simp add: registry_ok_def)
qed

lemma calls_registry_ok:
  assumes "calls p q" and "p = initial_process"
  shows "if once q
         then registry_ok q 0 \<and> (\<forall>r. registries q r \<noteq> None \<longrightarrow> r = 0)
         else (\<forall>r. registries q r = None)"
  using assms
proof (induction rule: calls.induct)
  case (no_call p)
  then show ?case by (simp add: initial_process_def)
next
  case (get_metrics p q)
  show ?case
  proof (cases "once q")
    case True
    then have "snd (GetMetrics q) = q" by (simp add: GetMetrics_def)
    with get_metrics True show ?thesis by simp
  next
    case False
    then have z: "next_registry q = 0"
      using calls_from_start [OF get_metrics.hyps] get_metrics.prems by simp
    have e: "registries q r = None" for r
      using get_metrics False by simp
    have r: "registries (snd (GetMetrics q)) = (registries q)(0 \<mapsto> new_InternalMetrics)"
      and o: "once (snd (GetMetrics q))"
      using False z by (simp_all add: GetMetrics_def Let_def)
    have "registry_ok (snd (GetMetrics q)) 0"
      by (rule registry_ok_new) (simp add: r)
    then show ?thesis
      using o r e by simp
  qed
next
  case (increment p q this inst eventType q')
  obtain r where t: "this = Some r" and some: "registries q r \<noteq> None"
    and same: "\<forall>r'. (registries q' r' = None) = (registries q r' = None)"
    using IncrementEventsReceived_registries(1) [OF increment.hyps(2)] by blast
  have o: "once q"
    using increment.IH increment.prems some by (auto split: if_splits)
  then have ok: "registry_ok q 0" and only: "\<forall>r. registries q r \<noteq> None \<longrightarrow> r = 0"
    using increment.IH increment.prems by simp_all
  have r0: "r = 0" using only some by simp
  obtain p' where "IncrementEventsReceived (Some 0) inst eventType q = Some p'"
    and "registry_ok p' 0"
    using IncrementEventsReceived_effect [OF ok, of inst eventType] by blast
  then have "registry_ok q' 0"
    using increment.hyps(2) t r0 by simp
  moreover have "once q'"
    using IncrementEventsReceived_registries(2) [OF increment.hyps(2)] o by simp
  ultimately show ?case
    using only same by simp
qed

lemma example_reached:
  "IncrementEventsReceived (Some 0) ''fs1'' ''CHANNEL_CREATE'' (snd (GetMetrics initial_process))
     = Some example_process"
  by (simp add: IncrementEventsReceived_def GetMetrics_def initial_process_def
      new_InternalMetrics_def new_int64_def atomic_AddInt64_def index2_def index1_def
      example_process_def Let_def)

lemma calls_example: "calls initial_process example_process"
  using calls.increment [OF calls.get_metrics [OF calls.no_call] example_reached] .

lemma registry_ok_example: "registry_ok example_process 0"
proof -
  have "once example_process" by (simp add: example_process_def)
  then show ?thesis
    using calls_registry_ok [OF calls_example refl] by simp
qed

text \<open>
  C10 (as amended). A call \<open>IncrementEventsReceived(instance, eventType)\<close> on a
  well-formed registry (a receiver that is not nil, whose table of received events
  and its inner maps are made and hold no nil pointer, every stored pointer being
  to a counter of its own) returns, increases the counter addressed by the pair by
  one (in 64-bit arithmetic, from zero if the pair had no counter; as a signed
  number whenever the counter is below the largest \<open>int64\<close>) and leaves every other
  counter of the registry, under another pair or in another family, unchanged; the
  registry is well formed again. The registry \<open>GetMetrics\<close> hands out is well
  formed, after any calls from the start of the process.
\<close>

theorem IncrementEventsReceived_frame:
  "(registry_ok p r \<longrightarrow>
      (\<exists>p'. IncrementEventsReceived (Some r) instance eventType p = Some p'
           \<and> counter_value p' r (EventsReceived instance eventType) =
               Some ((case counter_value p r (EventsReceived instance eventType) of
                        None \<Rightarrow> 0 | Some v \<Rightarrow> v) + 1)
           \<and> (\<forall>v. counter_value p r (EventsReceived instance eventType) = Some v
                    \<and> sint v < 2 ^ 63 - 1 \<longrightarrow>
                  map_option sint (counter_value p' r (EventsReceived instance eventType))
                    = Some (sint v + 1))
           \<and> (\<forall>c. c \<noteq> EventsReceived instance eventType \<longrightarrow>
                  counter_value p' r c = counter_value p r c)
           \<and> registry_ok p' r))
   \<and> (calls initial_process q \<longrightarrow>
        fst (GetMetrics q) = Some 0 \<and> registry_ok (snd (GetMetrics q)) 0)"
proof (intro conjI impI)
  assume ok: "registry_ok p r"
  obtain p' where "IncrementEventsReceived (Some r) instance eventType p = Some p'"
    and "counter_value p' r (EventsReceived instance eventType) =
               Some ((case counter_value p r (EventsReceived instance eventType) of
                        None \<Rightarrow> 0 | Some v \<Rightarrow> v) + 1)"
    and "\<forall>c. c \<noteq> EventsReceived instance eventType \<longrightarrow>
                  counter_value p' r c = counter_value p r c"
    and "registry_ok p' r"
    using IncrementEventsReceived_effect [OF ok, of "instance" "eventType"] by blast
  then show "\<exists>p'. IncrementEventsReceived (Some r) instance eventType p = Some p'
           \<and> counter_value p' r (EventsReceived instance eventType) =
               Some ((case counter_value p r (EventsReceived instance eventType) of
                        None \<Rightarrow> 0 | Some v \<Rightarrow> v) + 1)
           \<and> (\<forall>v. counter_value p r (EventsReceived instance eventType) = Some v
                    \<and> sint v < 2 ^ 63 - 1 \<longrightarrow>
                  map_option sint (counter_value p' r (EventsReceived instance eventType))
                    = Some (sint v + 1))
           \<and> (\<forall>c. c \<noteq> EventsReceived instance eventType \<longrightarrow>
                  counter_value p' r c = counter_value p r c)
           \<and> registry_ok p' r"
    by (auto simp: sint_succ)
next
  assume c: "calls initial_process q"
  show "fst (GetMetrics q) = Some 0"
    using calls_from_start [OF c refl] by (auto simp: GetMetrics_def Let_def split: if_splits)
  have "once (snd (GetMetrics q))" by (simp add: GetMetrics_def Let_def)
  then show "registry_ok (snd (GetMetrics q)) 0"
    using calls_registry_ok [OF calls.get_metrics [OF c] refl] by simp
qed

theorem IncrementEventsReceived_frame_witness:
  "registry_ok example_process 0
   \<and> calls initial_process example_process
   \<and> fst (GetMetrics example_process) = Some 0
   \<and> counter_value example_process 0 (EventsReceived ''fs1'' ''CHANNEL_CREATE'') = Some 1
   \<and> counter_value example_process 0 (EventsReceived ''fs1'' ''CHANNEL_DESTROY'') = None
   \<and> (\<exists>p'. IncrementEventsReceived (Some 0) ''fs1'' ''CHANNEL_CREATE'' example_process = Some p'
          \<and> counter_value p' 0 (EventsReceived ''fs1'' ''CHANNEL_CREATE'') = Some 2
          \<and> counter_value p' 0 (EventsReceived ''fs1'' ''CHANNEL_DESTROY'') = None
          \<and> counter_value p' 0 (EventsProcessed ''fs1'' ''CHANNEL_CREATE'') = None)
   \<and> (\<exists>p'. IncrementEventsReceived (Some 0) ''fs1'' ''CHANNEL_DESTROY'' example_process = Some p'
          \<and> counter_value p' 0 (EventsReceived ''fs1'' ''CHANNEL_DESTROY'') = Some 1
          \<and> counter_value p' 0 (EventsReceived ''fs1'' ''CHANNEL_CREATE'') = Some 1)"
proof -
  have a: "counter_value example_process 0 (EventsReceived ''fs1'' ''CHANNEL_CREATE'') = Some 1"
    and b: "counter_value example_process 0 (EventsReceived ''fs1'' ''CHANNEL_DESTROY'') = None"
    and c: "counter_value example_process 0 (EventsProcessed ''fs1'' ''CHANNEL_CREATE'') = None"
    by (simp_all add: counter_value_def example_process_def new_InternalMetrics_def index2_def
        index1_def)
  note t1 = IncrementEventsReceived_frame
    [where p = example_process and r = 0 and q = example_process
       and ?instance = "''fs1''" and eventType = "''CHANNEL_CREATE''"]
  note t2 = IncrementEventsReceived_frame
    [where p = example_process and r = 0 and q = example_process
       and ?instance = "''fs1''" and eventType = "''CHANNEL_DESTROY''"]
  have g: "fst (GetMetrics example_process) = Some 0"
    using t1 [THEN conjunct2] calls_example by simp
  obtain p1 where r1: "IncrementEventsReceived (Some 0) ''fs1'' ''CHANNEL_CREATE'' example_process
                        = Some p1"
    and v1: "counter_value p1 0 (EventsReceived ''fs1'' ''CHANNEL_CREATE'') =
               Some ((case counter_value example_process 0
                             (EventsReceived ''fs1'' ''CHANNEL_CREATE'') of
                        None \<Rightarrow> 0 | Some v \<Rightarrow> v) + 1)"
    and f1: "\<forall>c. c \<noteq> EventsReceived ''fs1'' ''CHANNEL_CREATE'' \<longrightarrow>
               counter_value p1 0 c = counter_value example_process 0 c"
    using t1 [THEN conjunct1] registry_ok_example by blast
  obtain p2 where r2: "IncrementEventsReceived (Some 0) ''fs1'' ''CHANNEL_DESTROY'' example_process
                        = Some p2"
    and v2: "counter_value p2 0 (EventsReceived ''fs1'' ''CHANNEL_DESTROY'') =
               Some ((case counter_value example_process 0
                             (EventsReceived ''fs1'' ''CHANNEL_DESTROY'') of
                        None \<Rightarrow> 0 | Some v \<Rightarrow> v) + 1)"
    and f2: "\<forall>c. c \<noteq> EventsReceived ''fs1'' ''CHANNEL_DESTROY'' \<longrightarrow>
               counter_value p2 0 c = counter_value example_process 0 c"
    using t2 [THEN conjunct1] registry_ok_example by blast
  have "counter_value p1 0 (EventsReceived ''fs1'' ''CHANNEL_CREATE'') = Some 2"
    using v1 by (simp add: a)
  moreover have "counter_value p1 0 (EventsReceived ''fs1'' ''CHANNEL_DESTROY'') = None"
    using f1 by (simp add: b)
  moreover have "counter_value p1 0 (EventsProcessed ''fs1'' ''CHANNEL_CREATE'') = None"
    using f1 by (simp add: c)
  moreover have "counter_value p2 0 (EventsReceived ''fs1'' ''CHANNEL_DESTROY'') = Some 1"
    using v2 by (simp add: b)
  moreover have "counter_value p2 0 (EventsReceived ''fs1'' ''CHANNEL_CREATE'') = Some 1"
    using f2 by (simp add: a)
  ultimately show ?thesis
    using registry_ok_example calls_example g a b r1 r2 by simp
qed

text \<open>
  The claim as stated fails for a registry that was not constructed by
  \<open>GetMetrics\<close>: on the zero value \<open>InternalMetrics{}\<close> the table is a nil map, and
  the call panics at the assignment of the inner map instead of counting.
\<close>

theorem zero_value_registry_counterexample:
  "registries zero_value_process 0 = Some zero_InternalMetrics
   \<and> IncrementEventsReceived (Some 0) ''fs1'' ''CHANNEL_CREATE'' zero_value_process = None"
  by (simp add: zero_value_process_def initial_process_def zero_InternalMetrics_def
      IncrementEventsReceived_def)

text \<open>
  C7. The registry is constructed lazily and exactly once, and every call returns
  the same instance. A first call of \<open>GetMetrics\<close> allocates one registry, the six
  made maps of the composite literal, and returns its address; a call after that
  returns \<open>globalMetrics\<close> and changes nothing. After a call of \<open>GetMetrics\<close>,
  whatever calls of \<open>GetMetrics\<close> and \<open>IncrementEventsReceived\<close> follow, a later call
  returns the same pointer, constructs nothing, and the registries allocated are the
  same. From the start of the process no registry exists before the first call, and
  after any calls \<open>GetMetrics\<close> returns the address of the one registry there is.
\<close>

theorem GetMetrics_singleton:
  "(\<not> once p \<longrightarrow>
      fst (GetMetrics p) = Some (next_registry p)
      \<and> registries (snd (GetMetrics p)) (next_registry p) = Some new_InternalMetrics
      \<and> next_registry (snd (GetMetrics p)) = Suc (next_registry p))
   \<and> (once p \<longrightarrow> GetMetrics p = (globalMetrics p, p))
   \<and> (calls (snd (GetMetrics p)) q \<longrightarrow>
        GetMetrics q = (fst (GetMetrics p), q)
        \<and> (\<forall>a. (registries q a = None) = (registries (snd (GetMetrics p)) a = None)))
   \<and> (calls initial_process q \<longrightarrow>
        fst (GetMetrics q) = Some 0
        \<and> (\<forall>r. (registries (snd (GetMetrics q)) r \<noteq> None) = (r = 0))
        \<and> (\<not> once q \<longrightarrow> (\<forall>r. registries q r = None)))"
proof (intro conjI impI)
  assume "\<not> once p"
  then show "fst (GetMetrics p) = Some (next_registry p)"
    and "registries (snd (GetMetrics p)) (next_registry p) = Some new_InternalMetrics"
    and "next_registry (snd (GetMetrics p)) = Suc (next_registry p)"
    by (simp_all add: GetMetrics_def Let_def)
next
  assume "once p"
  then show "GetMetrics p = (globalMetrics p, p)"
    by (simp add: GetMetrics_def)
next
  assume c: "calls (snd (GetMetrics p)) q"
  have o: "once (snd (GetMetrics p))" by (simp add: GetMetrics_def Let_def)
  have g: "fst (GetMetrics p) = globalMetrics (snd (GetMetrics p))"
    by (simp add: GetMetrics_def Let_def)
  show "GetMetrics q = (fst (GetMetrics p), q)"
    using calls_after_once [OF c o] g by (simp add: GetMetrics_def)
  show "\<forall>a. (registries q a = None) = (registries (snd (GetMetrics p)) a = None)"
    using calls_after_once [OF c o] by simp
next
  assume c: "calls initial_process q"
  have c': "calls initial_process (snd (GetMetrics q))"
    using c by (rule calls.get_metrics)
  have o: "once (snd (GetMetrics q))" by (simp add: GetMetrics_def Let_def)
  show "fst (GetMetrics q) = Some 0"
    using calls_from_start [OF c refl] by (auto simp: GetMetrics_def Let_def split: if_splits)
  have "registry_ok (snd (GetMetrics q)) 0"
    and "\<forall>r. registries (snd (GetMetrics q)) r \<noteq> None \<longrightarrow> r = 0"
    using calls_registry_ok [OF c' refl] o by simp_all
  then show "\<forall>r. (registries (snd (GetMetrics q)) r \<noteq> None) = (r = 0)"
    by (auto simp: registry_ok_def)
  show "\<forall>r. registries q r = None" if "\<not> once q"
    using calls_registry_ok [OF c refl] that by simp
qed

theorem GetMetrics_singleton_witness:
  "\<not> once initial_process
   \<and> once (snd (GetMetrics initial_process))
   \<and> calls (snd (GetMetrics initial_process)) example_process
   \<and> calls initial_process example_process
   \<and> fst (GetMetrics initial_process) = Some 0
   \<and> registries (snd (GetMetrics initial_process)) 0 = Some new_InternalMetrics
   \<and> GetMetrics (snd (GetMetrics initial_process)) = (Some 0, snd (GetMetrics initial_process))
   \<and> GetMetrics example_process = (Some 0, example_process)
   \<and> registries example_process 0 \<noteq> None"
proof -
  let ?p1 = "snd (GetMetrics initial_process)"
  have a: "\<not> once initial_process" by (simp add: initial_process_def)
  have n: "next_registry initial_process = 0" by (simp add: initial_process_def)
  have b: "once ?p1" by (simp add: GetMetrics_def Let_def)
  have c: "calls ?p1 example_process"
    using calls.increment [OF calls.no_call example_reached] .
  have g: "globalMetrics ?p1 = Some 0" by (simp add: GetMetrics_def Let_def initial_process_def)
  note t = GetMetrics_singleton [where p = initial_process and q = example_process]
  note u = GetMetrics_singleton [where p = ?p1 and q = ?p1]
  have f: "fst (GetMetrics initial_process) = Some 0"
    and r: "registries ?p1 0 = Some new_InternalMetrics"
    using t [THEN conjunct1] a n by simp_all
  have s: "GetMetrics ?p1 = (Some 0, ?p1)"
    using u [THEN conjunct2, THEN conjunct1] b g by simp
  have e: "GetMetrics example_process = (Some 0, example_process)"
    and k: "registries example_process 0 \<noteq> None"
    using t [THEN conjunct2, THEN conjunct2, THEN conjunct1] c f r by simp_all
  show ?thesis
    using a b c calls_example f r s e k by simp
qed

section \<open>Properties of the program\<close>

lemma count_connected_eq: "count_connected statuses n = n + length (filter id statuses)"
  by (induction statuses arbitrary: n) simp_all

lemma no_connection: "(count_connected statuses 0 = 0) = (True \<notin> set statuses)"
  by (induction statuses) (auto simp: count_connected_eq)

lemma stops_append: "stops (xs @ ys) = stops xs @ stops ys"
  by (induction xs rule: stops.induct) simp_all

lemma stops_gracefulShutdown:
  "stops (gracefulShutdown env) =
     [HTTP_server, Connection_manager, Event_processor, Metrics_exporter, State_store]"
  by (simp add: gracefulShutdown_def split: option.splits)

text \<open>
  Whatever the individual calls return, \<open>gracefulShutdown\<close> itself stops the HTTP
  server and then, in this order, the connection manager, the event processor, the
  metrics exporter and the state store, each once; within it no component is
  stopped after a component it relies on.
\<close>

lemma gracefulShutdown_order:
  "stops (gracefulShutdown env) =
     [HTTP_server, Connection_manager, Event_processor, Metrics_exporter, State_store]
   \<and> filter (\<lambda>c. c \<noteq> HTTP_server) (stops (gracefulShutdown env)) =
       [Connection_manager, Event_processor, Metrics_exporter, State_store]
   \<and> dependency_order [] (stops (gracefulShutdown env))"
  by (simp add: stops_gracefulShutdown)

text \<open>
  When \<open>main\<close> returns after the shutdown its deferred calls run: the stops of
  \<open>gracefulShutdown\<close> are followed by a second stop of the HTTP server, the
  connection manager and the event processor and a second close of the state store.
\<close>

lemma main_stops:
  assumes "fst (main env) = Exit 0" and "flag_Parse env = Flags_parsed"
    and "\<not> flag_version env" and "\<not> flag_help env"
  shows "stops (snd (main env)) =
           [HTTP_server, Connection_manager, Event_processor, Metrics_exporter, State_store,
            HTTP_server, Connection_manager, Event_processor, State_store]"
  using assms
  by (auto simp: main_def Let_def stops_append stops_gracefulShutdown deferred_calls_def
      split: option.splits if_splits)

text \<open>
  Every failure of the startup leaves through \<open>os.Exit\<close>, which runs no deferred
  call, so the deferred calls run on this path only: on every run that shuts down
  on a signal, components are stopped after components they rely on.
\<close>

lemma main_stops_out_of_order:
  assumes "fst (main env) = Exit 0" and "flag_Parse env = Flags_parsed"
    and "\<not> flag_version env" and "\<not> flag_help env"
  shows "\<not> dependency_order [] (stops (snd (main env)))"
  by (simp add: main_stops [OF assms])

lemma main_healthy: "main healthy_run =
    (Exit 0,
     [Start Event_processor, Start Connection_manager, Start HTTP_server]
     @ gracefulShutdown healthy_run @ deferred_calls)"
  by (simp add: main_def Let_def healthy_run_def validateStartup_def validateStateStore_def
      validateOTelEndpoint_def)

text \<open>
  C6. The code breaks the claim. On a run in which every call succeeds and the
  signal arrives, \<open>gracefulShutdown\<close> stops the components in the claimed order, and
  then the deferred calls of \<open>main\<close> stop the HTTP server, the connection manager
  and the event processor and close the state store a second time: the connection
  manager and the event processor are invoked after the components they rely on
  have completed teardown.
\<close>

theorem main_deferred_calls_break_order:
  "fst (main healthy_run) = Exit 0
   \<and> stops (gracefulShutdown healthy_run) =
       [HTTP_server, Connection_manager, Event_processor, Metrics_exporter, State_store]
   \<and> stops (snd (main healthy_run)) =
       [HTTP_server, Connection_manager, Event_processor, Metrics_exporter, State_store,
        HTTP_server, Connection_manager, Event_processor, State_store]
   \<and> relies_on Event_processor State_store
   \<and> \<not> dependency_order [] (stops (snd (main healthy_run)))"
  by (simp add: main_healthy stops_append stops_gracefulShutdown deferred_calls_def)

text \<open>
  C4 (as amended). The process ends with a non-zero exit status in two ways. It
  ends with status 2 exactly when \<open>flag.Parse\<close> cannot parse the command line. It
  ends with status 1 exactly when the command line parses, neither \<open>-version\<close> nor
  \<open>-help\<close> is given, and a step of the startup fails: loading the configuration,
  the startup validation (of the state store or of the telemetry endpoint),
  constructing the state store, constructing the metrics exporter, starting the
  event processor, finding no connected instance after the connection manager has
  started, or starting the HTTP server. An error of the connection manager's
  \<open>Start\<close> alone, of the validation exporter's \<open>Stop\<close>, or of any teardown call of the
  shutdown does not change how the process ends.
\<close>

theorem main_exit_conditions:
  "(fst (main env) = Exit 2) = (flag_Parse env = Flags_error)
   \<and> (fst (main env) = Exit 1) =
       (flag_Parse env = Flags_parsed \<and> \<not> flag_version env \<and> \<not> flag_help env
        \<and> (config_Load env \<noteq> None \<or> validateStartup env \<noteq> None \<or> NewStateStore env \<noteq> None
           \<or> NewMetricsExporter env \<noteq> None \<or> eventProcessor_Start env \<noteq> None
           \<or> True \<notin> set (connStatus env) \<or> httpServer_Start env \<noteq> None))
   \<and> (fst (main env) = Exit 2 \<or> fst (main env) = Exit 1 \<or> fst (main env) = Exit 0
        \<or> fst (main env) = Waiting)
   \<and> fst (main (env\<lparr>connManager_Start := e1, validation_exporter_Stop := e2,
                     httpServer_Stop := e3, connManager_Stop := e4, eventProcessor_Stop := e5,
                     metricsExporter_Stop := e6, stateStore_Close := e7\<rparr>)) = fst (main env)"
proof (intro conjI)
  show "(fst (main env) = Exit 2) = (flag_Parse env = Flags_error)"
    by (auto simp: main_def Let_def split: option.splits)
  show "(fst (main env) = Exit 1) =
       (flag_Parse env = Flags_parsed \<and> \<not> flag_version env \<and> \<not> flag_help env
        \<and> (config_Load env \<noteq> None \<or> validateStartup env \<noteq> None \<or> NewStateStore env \<noteq> None
           \<or> NewMetricsExporter env \<noteq> None \<or> eventProcessor_Start env \<noteq> None
           \<or> True \<notin> set (connStatus env) \<or> httpServer_Start env \<noteq> None))"
    by (cases "flag_Parse env") (auto simp: main_def Let_def no_connection split: option.splits)
  show "fst (main env) = Exit 2 \<or> fst (main env) = Exit 1 \<or> fst (main env) = Exit 0
        \<or> fst (main env) = Waiting"
    by (auto simp: main_def Let_def split: option.splits)
  have v: "validateStartup (env\<lparr>connManager_Start := e1, validation_exporter_Stop := e2,
                     httpServer_Stop := e3, connManager_Stop := e4, eventProcessor_Stop := e5,
                     metricsExporter_Stop := e6, stateStore_Close := e7\<rparr>) = validateStartup env"
    by (simp add: validateStartup_def validateStateStore_def validateOTelEndpoint_def
        cong del: option.case_cong_weak)
  show "fst (main (env\<lparr>connManager_Start := e1, validation_exporter_Stop := e2,
                     httpServer_Stop := e3, connManager_Stop := e4, eventProcessor_Stop := e5,
                     metricsExporter_Stop := e6, stateStore_Close := e7\<rparr>)) = fst (main env)"
    by (auto simp: main_def Let_def v split: option.splits)
qed

lemma validateStartup_healthy: "validateStartup healthy_run = None"
  by (simp add: validateStartup_def validateStateStore_def validateOTelEndpoint_def
      healthy_run_def)

theorem main_exit_conditions_witness:
  "fst (main healthy_run) = Exit 0
   \<and> fst (main noisy_run) = Exit 0
   \<and> fst (main bad_flag_run) = Exit 2
   \<and> fst (main (healthy_run\<lparr>NewStateStore := Some (Errorf ''connection refused'')\<rparr>)) = Exit 1
   \<and> fst (main (healthy_run\<lparr>connStatus := [False, False]\<rparr>)) = Exit 1
   \<and> fst (main (healthy_run\<lparr>config_Load := Some (Errorf ''no such file'')\<rparr>)) = Exit 1"
proof -
  have s: "fst (main healthy_run) \<noteq> Waiting"
    using validateStartup_healthy by (simp add: main_def Let_def healthy_run_def)
  note t = main_exit_conditions [where env = healthy_run
        and ?e1.0 = "Some (Errorf ''fs2 unreachable'')" and ?e2.0 = None and ?e3.0 = None
        and ?e4.0 = None and ?e5.0 = None and ?e6.0 = "Some (Errorf ''flush timed out'')"
        and ?e7.0 = "Some (Errorf ''connection reset'')"]
  have n2: "fst (main healthy_run) \<noteq> Exit 2"
    using t [THEN conjunct1] by (simp add: healthy_run_def)
  have n: "fst (main healthy_run) \<noteq> Exit 1"
    using t [THEN conjunct2, THEN conjunct1] validateStartup_healthy
    by (simp add: healthy_run_def)
  have a: "fst (main healthy_run) = Exit 0"
    using t [THEN conjunct2, THEN conjunct2, THEN conjunct1] n n2 s by blast
  have "noisy_run = healthy_run\<lparr>connManager_Start := Some (Errorf ''fs2 unreachable''),
          validation_exporter_Stop := None, httpServer_Stop := None, connManager_Stop := None,
          eventProcessor_Stop := None, metricsExporter_Stop := Some (Errorf ''flush timed out''),
          stateStore_Close := Some (Errorf ''connection reset'')\<rparr>"
    by (simp add: noisy_run_def healthy_run_def)
  then have b: "fst (main noisy_run) = Exit 0"
    using t [THEN conjunct2, THEN conjunct2, THEN conjunct2] a by simp
  have f: "fst (main bad_flag_run) = Exit 2"
    using main_exit_conditions [where env = bad_flag_run and ?e1.0 = None and ?e2.0 = None
        and ?e3.0 = None and ?e4.0 = None and ?e5.0 = None and ?e6.0 = None and ?e7.0 = None,
        THEN conjunct1]
    by (simp add: bad_flag_run_def)
  have c: "fst (main (healthy_run\<lparr>NewStateStore := Some (Errorf ''connection refused'')\<rparr>)) = Exit 1"
    using main_exit_conditions
      [where env = "healthy_run\<lparr>NewStateStore := Some (Errorf ''connection refused'')\<rparr>"
         and ?e1.0 = None and ?e2.0 = None and ?e3.0 = None and ?e4.0 = None and ?e5.0 = None
         and ?e6.0 = None and ?e7.0 = None, THEN conjunct2, THEN conjunct1]
    by (simp add: healthy_run_def)
  have d: "fst (main (healthy_run\<lparr>connStatus := [False, False]\<rparr>)) = Exit 1"
    using main_exit_conditions
      [where env = "healthy_run\<lparr>connStatus := [False, False]\<rparr>"
         and ?e1.0 = None and ?e2.0 = None and ?e3.0 = None and ?e4.0 = None and ?e5.0 = None
         and ?e6.0 = None and ?e7.0 = None, THEN conjunct2, THEN conjunct1]
    by (simp add: healthy_run_def)
  have e: "fst (main (healthy_run\<lparr>config_Load := Some (Errorf ''no such file'')\<rparr>)) = Exit 1"
    using main_exit_conditions
      [where env = "healthy_run\<lparr>config_Load := Some (Errorf ''no such file'')\<rparr>"
         and ?e1.0 = None and ?e2.0 = None and ?e3.0 = None and ?e4.0 = None and ?e5.0 = None
         and ?e6.0 = None and ?e7.0 = None, THEN conjunct2, THEN conjunct1]
    by (simp add: healthy_run_def)
  show ?thesis using a b c d e f by simp
qed

text \<open>
  The claim as stated fails: with an instance connected and the state store
  constructed, a failure to start the HTTP server ends the process with status 1.
\<close>

theorem http_start_failure_counterexample:
  "count_connected (connStatus http_port_taken) 0 = 1
   \<and> NewStateStore http_port_taken = None
   \<and> validateStartup http_port_taken = None
   \<and> fst (main http_port_taken) = Exit 1"
  by (simp add: http_port_taken_def healthy_run_def main_def Let_def validateStartup_def
      validateStateStore_def validateOTelEndpoint_def)

end
